theory Spec2Isabelle
  imports Main
begin

text \<open>
  A shallow embedding of the remote WebDriver client of \<^verbatim>\<open>remote.go\<close>: the command
  executor (\<^verbatim>\<open>execute\<close>, \<^verbatim>\<open>send\<close> and the command helpers), the session
  lifecycle (\<^verbatim>\<open>NewSession\<close>, \<^verbatim>\<open>Quit\<close>), the element handles, the script arguments,
  the cookie expiry patch and the redirect policy. A function of the client takes the
  environment, the world and the driver, and returns its outcome (a value, an error or
  a panic) with the driver and the world as it leaves them. The last section states and
  proves the properties C1 to C10 of the specification on this embedding.
\<close>

section \<open>JSON documents and the decoding rules of the Go runtime\<close>

text \<open>
  The client reads every reply with \<^verbatim>\<open>encoding/json\<close>. A reply body is a byte string;
  the grammar of JSON is not part of the repository, so the parser is a parameter
  \<open>P\<close> of the model, giving the document tree of a byte string or \<open>None\<close> for a syntax
  error. A number keeps its literal, because the decoder reads it differently for an
  \<^verbatim>\<open>int\<close> field and for a \<^verbatim>\<open>json.Number\<close> field; an object keeps its members in
  document order, duplicates included, because the decoder visits them in that order.
\<close>

datatype json =
    JNull
  | JBool bool
  | JNumber string
  | JString string
  | JArray "json list"
  | JObject "(string \<times> json) list"

type_synonym parser = "string \<Rightarrow> json option"

text \<open>\<^verbatim>\<open>json.Unmarshal\<close> on bytes: the empty input is never a document.\<close>

definition json_of_bytes :: "parser \<Rightarrow> string \<Rightarrow> json option" where
  "json_of_bytes P buf = (if buf = [] then None else P buf)"

subsection \<open>Field names\<close>

text \<open>
  A member of an object is stored into the struct field whose name equals the key up to
  case folding. All field names of this program are ASCII, so a key matches a field
  exactly when folding maps both to the same ASCII string: \<open>a\<close>--\<open>z\<close> fold to
  \<open>A\<close>--\<open>Z\<close>, and the two non-ASCII letters whose fold orbit holds an ASCII letter,
  U+017F (bytes C5 BF) and U+212A (bytes E2 84 AA), fold to \<open>S\<close> and \<open>K\<close>.
\<close>

fun foldByte :: "char \<Rightarrow> char" where
  "foldByte (Char b0 b1 b2 b3 b4 b5 b6 b7) =
     (let n = (of_char (Char b0 b1 b2 b3 b4 b5 b6 b7) :: nat) in
      if 97 \<le> n \<and> n \<le> 122 then Char b0 b1 b2 b3 b4 False b6 b7
      else Char b0 b1 b2 b3 b4 b5 b6 b7)"

fun foldName :: "string \<Rightarrow> string" where
  "foldName [] = []"
| "foldName (c # cs) =
     (if (of_char c :: nat) = 197 \<and> map of_char (take 1 cs) = [191 :: nat]
        then CHR ''S'' # foldName (drop 1 cs)
      else if (of_char c :: nat) = 226 \<and> map of_char (take 2 cs) = [132, 170 :: nat]
        then CHR ''K'' # foldName (drop 2 cs)
      else foldByte c # foldName cs)"

definition isField :: "string \<Rightarrow> string \<Rightarrow> bool" where
  "isField name key = (foldName key = foldName name)"

subsection \<open>Scalars\<close>

definition isDigit :: "char \<Rightarrow> bool" where
  "isDigit c = (48 \<le> (of_char c :: nat) \<and> (of_char c :: nat) \<le> 57)"

definition digitVal :: "char \<Rightarrow> nat" where
  "digitVal c = (of_char c :: nat) - 48"

fun natOfDigits :: "nat \<Rightarrow> string \<Rightarrow> nat" where
  "natOfDigits acc [] = acc"
| "natOfDigits acc (c # cs) = natOfDigits (acc * 10 + digitVal c) cs"

text \<open>
  \<^verbatim>\<open>strconv.ParseInt(s, 10, 64)\<close>: an optional sign, then one or more decimal digits
  and nothing else; a value outside the 64-bit range is an error.
\<close>

definition ParseInt :: "string \<Rightarrow> int option" where
  "ParseInt s =
     (let neg = (take 1 s = ''-'');
          ds = (if take 1 s = ''-'' \<or> take 1 s = ''+'' then drop 1 s else s)
      in if ds = [] \<or> \<not> list_all isDigit ds then None
         else let n = int (natOfDigits 0 ds); v = (if neg then - n else n)
              in if - (2 ^ 63) \<le> v \<and> v < 2 ^ 63 then Some v else None)"

text \<open>
  Storing a document into a field gives the field's new content, or \<open>None\<close> for a type
  mismatch (an \<^verbatim>\<open>UnmarshalTypeError\<close>: the decoder records it, leaves the field as it
  was and goes on). \<^verbatim>\<open>null\<close> leaves a string, an integer or a boolean as it was.
\<close>

fun storeString :: "json \<Rightarrow> string \<Rightarrow> string option" where
  "storeString (JString s) cur = Some s"
| "storeString JNull cur = Some cur"
| "storeString _ cur = None"

fun storeInt :: "json \<Rightarrow> int \<Rightarrow> int option" where
  "storeInt (JNumber lit) cur = ParseInt lit"
| "storeInt JNull cur = Some cur"
| "storeInt _ cur = None"

fun storeBool :: "json \<Rightarrow> bool \<Rightarrow> bool option" where
  "storeBool (JBool b) cur = Some b"
| "storeBool JNull cur = Some cur"
| "storeBool _ cur = None"


section \<open>Formatting\<close>

text \<open>The verb \<^verbatim>\<open>%d\<close> of \<^verbatim>\<open>fmt\<close> on an \<^verbatim>\<open>int\<close>.\<close>

definition decDigit :: "nat \<Rightarrow> char" where
  "decDigit d = ''0123456789'' ! d"

fun showNat :: "nat \<Rightarrow> string" where
  "showNat n = (if n < 10 then [decDigit n] else showNat (n div 10) @ [decDigit (n mod 10)])"

declare showNat.simps [simp del]

definition showInt :: "int \<Rightarrow> string" where
  "showInt i = (if i < 0 then CHR ''-'' # showNat (nat (- i)) else showNat (nat i))"

text \<open>
  The verb \<^verbatim>\<open>%q\<close> on a string is \<^verbatim>\<open>strconv.Quote\<close>: the string between double
  quotes, with the quote and the backslash escaped, printable runes copied and every
  other rune written as an escape sequence. Which runes above U+00FF are printable is
  a table of the Go runtime, the parameter \<open>tbl\<close>.
\<close>

definition hexDigit :: "nat \<Rightarrow> char" where
  "hexDigit d = ''0123456789abcdef'' ! d"

definition hex2 :: "nat \<Rightarrow> string" where
  "hex2 b = [hexDigit (b div 16 mod 16), hexDigit (b mod 16)]"

definition hex4 :: "nat \<Rightarrow> string" where
  "hex4 r = hex2 (r div 256) @ hex2 r"

definition hex8 :: "nat \<Rightarrow> string" where
  "hex8 r = hex4 (r div 65536) @ hex4 r"

definition RuneError :: nat where
  "RuneError = 65533"

definition isCont :: "nat \<Rightarrow> bool" where
  "isCont b = (128 \<le> b \<and> b \<le> 191)"

text \<open>\<^verbatim>\<open>utf8.DecodeRuneInString\<close> on the bytes of a string: the rune and its width.\<close>

definition DecodeRune :: "nat list \<Rightarrow> nat \<times> nat" where
  "DecodeRune bs =
     (case bs of
        [] \<Rightarrow> (RuneError, 0)
      | b0 # r1 \<Rightarrow>
          if b0 < 128 then (b0, 1)
          else if 194 \<le> b0 \<and> b0 \<le> 223 then
            (case r1 of
               b1 # _ \<Rightarrow>
                 if isCont b1 then ((b0 - 192) * 64 + (b1 - 128), 2) else (RuneError, 1)
             | _ \<Rightarrow> (RuneError, 1))
          else if 224 \<le> b0 \<and> b0 \<le> 239 then
            (case r1 of
               b1 # b2 # _ \<Rightarrow>
                 if (if b0 = 224 then 160 else 128) \<le> b1
                    \<and> b1 \<le> (if b0 = 237 then 159 else 191) \<and> isCont b2
                 then ((b0 - 224) * 4096 + (b1 - 128) * 64 + (b2 - 128), 3)
                 else (RuneError, 1)
             | _ \<Rightarrow> (RuneError, 1))
          else if 240 \<le> b0 \<and> b0 \<le> 244 then
            (case r1 of
               b1 # b2 # b3 # _ \<Rightarrow>
                 if (if b0 = 240 then 144 else 128) \<le> b1
                    \<and> b1 \<le> (if b0 = 244 then 143 else 191) \<and> isCont b2 \<and> isCont b3
                 then ((b0 - 240) * 262144 + (b1 - 128) * 4096 + (b2 - 128) * 64
                       + (b3 - 128), 4)
                 else (RuneError, 1)
             | _ \<Rightarrow> (RuneError, 1))
          else (RuneError, 1))"

definition IsPrint :: "(nat \<Rightarrow> bool) \<Rightarrow> nat \<Rightarrow> bool" where
  "IsPrint tbl r =
     (if r \<le> 255 then (32 \<le> r \<and> r < 127) \<or> (161 \<le> r \<and> r \<noteq> 173) else tbl r)"

definition ValidRune :: "nat \<Rightarrow> bool" where
  "ValidRune r = (r < 55296 \<or> (57343 < r \<and> r \<le> 1114111))"

text \<open>
  \<open>appendEscapedRune tbl r enc\<close> is what \<^verbatim>\<open>strconv\<close> appends for the rune \<open>r\<close>
  whose UTF-8 encoding is \<open>enc\<close>.
\<close>

definition appendEscapedRune :: "(nat \<Rightarrow> bool) \<Rightarrow> nat \<Rightarrow> string \<Rightarrow> string" where
  "appendEscapedRune tbl r enc =
     (if r = 34 \<or> r = 92 then CHR 0x5C # enc
      else if IsPrint tbl r then enc
      else if r = 7 then [CHR 0x5C, CHR ''a'']
      else if r = 8 then [CHR 0x5C, CHR ''b'']
      else if r = 12 then [CHR 0x5C, CHR ''f'']
      else if r = 10 then [CHR 0x5C, CHR ''n'']
      else if r = 13 then [CHR 0x5C, CHR ''r'']
      else if r = 9 then [CHR 0x5C, CHR ''t'']
      else if r = 11 then [CHR 0x5C, CHR ''v'']
      else if r < 32 \<or> r = 127 then CHR 0x5C # CHR ''x'' # hex2 r
      else if \<not> ValidRune r then CHR 0x5C # CHR ''u'' # hex4 RuneError
      else if r < 65536 then CHR 0x5C # CHR ''u'' # hex4 r
      else CHR 0x5C # CHR ''U'' # hex8 r)"

fun quoteLoop :: "(nat \<Rightarrow> bool) \<Rightarrow> string \<Rightarrow> string" where
  "quoteLoop tbl [] = []"
| "quoteLoop tbl (c # cs) =
     (if snd (DecodeRune (map of_char (c # cs))) = 1
         \<and> fst (DecodeRune (map of_char (c # cs))) = RuneError
      then CHR 0x5C # CHR ''x'' # hex2 (of_char c)
      else appendEscapedRune tbl (fst (DecodeRune (map of_char (c # cs))))
             (take (snd (DecodeRune (map of_char (c # cs)))) (c # cs)))
     @ quoteLoop tbl (drop (snd (DecodeRune (map of_char (c # cs))) - 1) cs)"

definition Quote :: "(nat \<Rightarrow> bool) \<Rightarrow> string \<Rightarrow> string" where
  "Quote tbl s = CHR 0x22 # quoteLoop tbl s @ [CHR 0x22]"

section \<open>Errors and the Error Catalog\<close>

text \<open>
  The error values of the client: the sentinel \<^verbatim>\<open>ErrCanceled\<close>, an error made from a
  text (\<^verbatim>\<open>errors.New\<close>, \<^verbatim>\<open>fmt.Errorf\<close>), an error of \<^verbatim>\<open>encoding/json\<close>, and an
  error of \<^verbatim>\<open>net/http\<close> (building the request, the transport, the redirect policy, or
  reading the body), kept by the text of its cause.
\<close>

datatype error =
    ErrCanceled
  | ErrorString string
  | JsonError
  | HttpError string

definition errorCodes :: "int \<rightharpoonup> string" where
  "errorCodes = map_of
     [(7, ''no such element''),
      (8, ''no such frame''),
      (9, ''unknown command''),
      (10, ''stale element reference''),
      (11, ''element not visible''),
      (12, ''invalid element state''),
      (13, ''unknown error''),
      (15, ''element is not selectable''),
      (17, ''javascript error''),
      (19, ''xpath lookup error''),
      (21, ''timeout''),
      (23, ''no such window''),
      (24, ''invalid cookie domain''),
      (25, ''unable to set cookie''),
      (26, ''unexpected alert open''),
      (27, ''no alert open''),
      (28, ''script timeout''),
      (29, ''invalid element coordinates''),
      (32, ''invalid selector'')]"

definition SUCCESS :: int where
  "SUCCESS = 0"

definition jsonMIMEType :: string where
  "jsonMIMEType = ''application/json''"

section \<open>The reply envelope\<close>

text \<open>
  \<open>Value\<close> is a \<^verbatim>\<open>json.RawMessage\<close>: the bytes of the member \<^verbatim>\<open>value\<close>, kept for a
  later decode. The model keeps the document those bytes spell, and \<open>None\<close> for the nil
  message of an envelope without that member, which no decode accepts.
\<close>

record reply =
  SessionId :: string
  Status :: int
  Value :: "json option"

definition reply0 :: reply where
  "reply0 = \<lparr>SessionId = [], Status = 0, Value = None\<rparr>"

record replyValue =
  Message :: string

record replyMessage =
  ErrorMessage :: string

text \<open>
  Decoding an object into a struct visits the members in order; the flag is false once
  a member did not fit its field (\<^verbatim>\<open>json.Unmarshal\<close> then returns an error).
\<close>

fun replyMembers :: "(string \<times> json) list \<Rightarrow> reply \<Rightarrow> bool \<Rightarrow> reply \<times> bool" where
  "replyMembers [] r ok = (r, ok)"
| "replyMembers ((k, v) # kvs) r ok =
     (if isField ''SessionId'' k then
        (case storeString v (SessionId r) of
           Some s \<Rightarrow> replyMembers kvs (r\<lparr>SessionId := s\<rparr>) ok
         | None \<Rightarrow> replyMembers kvs r False)
      else if isField ''Status'' k then
        (case storeInt v (Status r) of
           Some n \<Rightarrow> replyMembers kvs (r\<lparr>Status := n\<rparr>) ok
         | None \<Rightarrow> replyMembers kvs r False)
      else if isField ''Value'' k then replyMembers kvs (r\<lparr>Value := Some v\<rparr>) ok
      else replyMembers kvs r ok)"

definition unmarshal_reply :: "json \<Rightarrow> reply \<Rightarrow> reply \<times> bool" where
  "unmarshal_reply j r =
     (case j of
        JObject kvs \<Rightarrow> replyMembers kvs r True
      | JNull \<Rightarrow> (r, True)
      | _ \<Rightarrow> (r, False))"

fun fieldMembers ::
  "(json \<Rightarrow> 'a \<Rightarrow> 'a option) \<Rightarrow> string \<Rightarrow> (string \<times> json) list \<Rightarrow> 'a \<Rightarrow> bool
   \<Rightarrow> 'a \<times> bool" where
  "fieldMembers store name [] cur ok = (cur, ok)"
| "fieldMembers store name ((k, v) # kvs) cur ok =
     (if isField name k then
        (case store v cur of
           Some s \<Rightarrow> fieldMembers store name kvs s ok
         | None \<Rightarrow> fieldMembers store name kvs cur False)
      else fieldMembers store name kvs cur ok)"

text \<open>
  A struct with one field, named \<open>name\<close> on the wire and filled by \<open>store\<close>; for a
  string field this is \<open>unmarshal_stringStruct\<close>.
\<close>

definition unmarshal_fieldStruct ::
  "(json \<Rightarrow> 'a \<Rightarrow> 'a option) \<Rightarrow> string \<Rightarrow> json \<Rightarrow> 'a \<Rightarrow> 'a \<times> bool" where
  "unmarshal_fieldStruct store name j cur =
     (case j of
        JObject kvs \<Rightarrow> fieldMembers store name kvs cur True
      | JNull \<Rightarrow> (cur, True)
      | _ \<Rightarrow> (cur, False))"

definition unmarshal_stringStruct :: "string \<Rightarrow> json \<Rightarrow> string \<Rightarrow> string \<times> bool" where
  "unmarshal_stringStruct = unmarshal_fieldStruct storeString"

definition unmarshal_replyValue :: "json option \<Rightarrow> replyValue \<times> bool" where
  "unmarshal_replyValue raw =
     (case raw of
        None \<Rightarrow> (\<lparr>Message = []\<rparr>, False)
      | Some j \<Rightarrow> (case unmarshal_stringStruct ''message'' j [] of
                    (m, ok) \<Rightarrow> (\<lparr>Message = m\<rparr>, ok)))"

definition unmarshal_replyMessage :: "json option \<Rightarrow> replyMessage \<times> bool" where
  "unmarshal_replyMessage raw =
     (case raw of
        None \<Rightarrow> (\<lparr>ErrorMessage = []\<rparr>, False)
      | Some j \<Rightarrow> (case unmarshal_stringStruct ''errorMessage'' j [] of
                    (m, ok) \<Rightarrow> (\<lparr>ErrorMessage = m\<rparr>, ok)))"

text \<open>
  The closure \<^verbatim>\<open>pE\<close> of \<^verbatim>\<open>execute\<close>: the error for an envelope, from the catalog
  and the backend's message.
\<close>

definition backendError :: "parser \<Rightarrow> reply \<Rightarrow> string" where
  "backendError P r =
     (case unmarshal_replyValue (Value r) of
        (sr, True) \<Rightarrow>
          if Message sr \<noteq> [] then
            (case unmarshal_replyMessage (json_of_bytes P (Message sr)) of
               (rm, True) \<Rightarrow> ErrorMessage rm
             | (rm, False) \<Rightarrow> [])
          else []
      | (sr, False) \<Rightarrow> [])"

definition catalogMessage :: "int \<Rightarrow> string" where
  "catalogMessage status =
     (case errorCodes status of
        Some message \<Rightarrow> message
      | None \<Rightarrow> ''unknown error - '' @ showInt status)"

definition pE :: "parser \<Rightarrow> (nat \<Rightarrow> bool) \<Rightarrow> reply \<Rightarrow> error" where
  "pE P tbl r =
     ErrorString (catalogMessage (Status r) @ '' - '' @ Quote tbl (backendError P r))"


section \<open>The driver, the network and the cancellation token\<close>

text \<open>
  A \<^verbatim>\<open>context.Context\<close> as the driver uses it: only \<^verbatim>\<open>Done\<close> is read.
  \<open>Background\<close> never fires; \<open>FiresAt t\<close> is a token that is fired from the moment the
  clock of the world shows \<open>t\<close>, and stays fired. The clock counts the round trips made.
\<close>

datatype ctx = Background | FiresAt nat

record request =
  Method :: string
  URL :: string
  Header :: "(string \<times> string) list"
  Data :: "json option"

text \<open>
  \<open>Data\<close> is the request body: the document the bytes of \<^verbatim>\<open>json.Marshal\<close> spell, or
  \<open>None\<close> for a request without a body.
\<close>

record response =
  StatusCode :: int
  HttpStatus :: string
  ContentType :: string
  Body :: string

datatype http_result =
    DoFailed string
  | ReadFailed string
  | Responded response

subsection \<open>The HTTP client and its redirect policy\<close>

text \<open>
  The \<^verbatim>\<open>CheckRedirect\<close> function of \<^verbatim>\<open>httpClient\<close>: \<open>req\<close> is the request about to
  be made and \<open>via\<close> the requests made already, oldest first. It refuses with an
  error, or adds the \<^verbatim>\<open>Accept\<close> header to the request.
\<close>

definition CheckRedirect :: "request \<Rightarrow> request list \<Rightarrow> string + request" where
  "CheckRedirect req via =
     (if 10 \<le> length via then Inl ''stopped after 10 redirects''
      else Inr (req\<lparr>Header := Header req @ [(''Accept'', jsonMIMEType)]\<rparr>))"

text \<open>
  How \<^verbatim>\<open>net/http\<close> drives it (\<^verbatim>\<open>Client.Do\<close>): every request made is recorded; when
  the answer is a redirect the client builds the next request, asks
  \<^verbatim>\<open>CheckRedirect\<close> with the requests made so far, and either stops with its error
  or makes the request it returned. \<open>rt\<close> is the transport with the client's
  redirect rules: its answer to one request is a response, an error, or a redirect, given
  as the next request the client builds. The error of \<^verbatim>\<open>CheckRedirect\<close> is kept
  by its text (the client wraps it with the method and the URL).
\<close>

datatype hop = Final response | Broken string | Redirect request

function clientDo ::
  "(request \<Rightarrow> hop) \<Rightarrow> request list \<Rightarrow> request \<Rightarrow> http_result \<times> request list" where
  "clientDo rt reqs req =
     (case rt req of
        Final res \<Rightarrow> (Responded res, reqs @ [req])
      | Broken e \<Rightarrow> (DoFailed e, reqs @ [req])
      | Redirect next \<Rightarrow>
          (case CheckRedirect next (reqs @ [req]) of
             Inl e \<Rightarrow> (DoFailed e, reqs @ [req])
           | Inr next' \<Rightarrow> clientDo rt (reqs @ [req]) next'))"
  by pat_completeness auto
termination
  by (relation "measure (\<lambda>(rt, reqs, req). 10 - length reqs)")
     (auto simp: CheckRedirect_def split: if_splits)

declare clientDo.simps [simp del]

definition Do :: "(request \<Rightarrow> hop) \<Rightarrow> request \<Rightarrow> http_result \<times> request list" where
  "Do rt req = clientDo rt [] req"

text \<open>
  What lies outside the repository is one record of parameters: the JSON parser, the
  printable-rune table, the \<^verbatim>\<open>uint\<close> that the platform makes of a \<^verbatim>\<open>float64\<close> no
  \<^verbatim>\<open>uint\<close> holds, what \<^verbatim>\<open>fmt\<close> prints from a directive other than \<^verbatim>\<open>%s\<close> and
  \<^verbatim>\<open>%%\<close> onward, \<^verbatim>\<open>http.NewRequest\<close> (the text of its error for a method and a URL
  it refuses), the transport that carries one request to the remote end (its answer, given
  the requests of the commands before it) and \<^verbatim>\<open>ioutil.ReadAll\<close> on the body of a
  response (its error, for a body that cannot be read to its end).
\<close>

type_synonym formatter = "string \<Rightarrow> string list \<Rightarrow> nat \<Rightarrow> string"

record env =
  Parse :: parser
  PrintTable :: "nat \<Rightarrow> bool"
  UintOf :: "bool \<Rightarrow> nat \<Rightarrow> nat"
  Format :: formatter
  NewRequestError :: "string \<Rightarrow> string \<Rightarrow> string option"
  Transport :: "request list \<Rightarrow> request \<Rightarrow> hop"
  ReadError :: "response \<Rightarrow> string option"

text \<open>
  The world: a clock, and the requests the commands have handed to the HTTP client, oldest
  first. The requests the client makes on its own when it follows a redirect are the
  second component of \<open>Do\<close>.
\<close>

record world =
  clock :: nat
  issued :: "request list"

definition Done :: "world \<Rightarrow> ctx \<Rightarrow> bool" where
  "Done w c = (case c of Background \<Rightarrow> False | FiresAt t \<Rightarrow> t \<le> clock w)"

text \<open>
  The struct \<^verbatim>\<open>remoteWebDriver\<close>. \<open>capabilities\<close> holds what \<^verbatim>\<open>json.Marshal\<close>
  makes of the capabilities map (\<open>None\<close> when it cannot be marshaled). The mutex
  \<^verbatim>\<open>haveQuitMu\<close> has no field: the model runs one call at a time.
\<close>

record remoteWebDriver =
  id' :: string
  executor :: string
  capabilities :: "json option"
  ctx :: ctx
  haveQuit :: bool

datatype panic = NilDereference | IndexOutOfRange | DecodePanic "json option"

datatype 'a outcome = Return 'a | Fail error | Panic panic

definition SetContext :: "remoteWebDriver \<Rightarrow> ctx \<Rightarrow> remoteWebDriver" where
  "SetContext wd c = wd\<lparr>ctx := c\<rparr>"

subsection \<open>URLs\<close>

text \<open>
  \<^verbatim>\<open>fmt.Sprintf\<close> on string arguments. \<open>doPrintf F format a n\<close> is what is printed
  from \<open>format\<close> on when \<open>n\<close> of the arguments \<open>a\<close> are used up: text is copied,
  \<^verbatim>\<open>%%\<close> is a percent sign, \<^verbatim>\<open>%s\<close> prints the next argument or
  \<^verbatim>\<open>%!s(MISSING)\<close>, a percent sign at the end prints \<^verbatim>\<open>%!(NOVERB)\<close>, and the
  arguments left over at the end are listed as \<^verbatim>\<open>%!(EXTRA ...)\<close>. These are the
  directives of the templates of this program. Every other directive (another verb, a
  flag, a width, a precision, an argument index) is left with all that follows it to the
  parameter \<open>F\<close>, which gets the format from the percent sign on, the arguments and
  \<open>n\<close>.
\<close>

fun extraArgs :: "string list \<Rightarrow> string" where
  "extraArgs [] = []"
| "extraArgs [a] = ''string='' @ a"
| "extraArgs (a # as) = ''string='' @ a @ '', '' @ extraArgs as"

fun doPrintf :: "formatter \<Rightarrow> string \<Rightarrow> string list \<Rightarrow> nat \<Rightarrow> string" where
  "doPrintf F [] a n =
     (if n < length a then ''%!(EXTRA '' @ extraArgs (drop n a) @ '')'' else [])"
| "doPrintf F [c] a n =
     (if c = CHR ''%'' then ''%!(NOVERB)'' else [c]) @ doPrintf F [] a n"
| "doPrintf F (c # v # cs) a n =
     (if c = CHR ''%'' then
        (if v = CHR ''%'' then CHR ''%'' # doPrintf F cs a n
         else if v = CHR ''s'' then
           (if n < length a then a ! n @ doPrintf F cs a (Suc n)
            else ''%!s(MISSING)'' @ doPrintf F cs a n)
         else F (c # v # cs) a n)
      else c # doPrintf F (v # cs) a n)"

definition Sprintf :: "formatter \<Rightarrow> string \<Rightarrow> string list \<Rightarrow> string" where
  "Sprintf F format a = doPrintf F format a 0"

definition url :: "env \<Rightarrow> remoteWebDriver \<Rightarrow> string \<Rightarrow> string list \<Rightarrow> string" where
  "url E wd template args = executor wd @ Sprintf (Format E) template args"

subsection \<open>One command\<close>

definition HasPrefix :: "string \<Rightarrow> string \<Rightarrow> bool" where
  "HasPrefix s p = (take (length p) s = p)"

text \<open>
  The last part of \<^verbatim>\<open>execute\<close>, from the response read to the return: the
  classification of the response.
\<close>

definition classify :: "env \<Rightarrow> response \<Rightarrow> string outcome" where
  "classify E res =
     (if 400 \<le> StatusCode res then
        (case json_of_bytes (Parse E) (Body res) of
           None \<Rightarrow> Fail (ErrorString (''Bad server reply status: '' @ HttpStatus res))
         | Some j \<Rightarrow>
             (case unmarshal_reply j reply0 of
                (r, False) \<Rightarrow>
                  Fail (ErrorString (''Bad server reply status: '' @ HttpStatus res))
              | (r, True) \<Rightarrow> Fail (pE (Parse E) (PrintTable E) r)))
      else if HasPrefix (ContentType res) jsonMIMEType then
        (case json_of_bytes (Parse E) (Body res) of
           None \<Rightarrow> Fail JsonError
         | Some j \<Rightarrow>
             (case unmarshal_reply j reply0 of
                (r, False) \<Rightarrow> Fail JsonError
              | (r, True) \<Rightarrow>
                  if Status r \<noteq> SUCCESS then Fail (pE (Parse E) (PrintTable E) r)
                  else Return (Body res)))
      else Return (Body res))"

text \<open>
  The middle part of \<^verbatim>\<open>execute\<close>, between the two looks at the token: the request is
  built with its headers, handed to the HTTP client (which records it and lets the
  clock advance) and the response is classified. The log and trace output of
  \<^verbatim>\<open>execute\<close> changes no result and is left out.
\<close>

definition newRequest :: "string \<Rightarrow> string \<Rightarrow> json option \<Rightarrow> request" where
  "newRequest meth u data =
     \<lparr>Method = meth, URL = u,
      Header = (''Accept'', jsonMIMEType) #
        (if meth = ''POST'' then [(''Content-Type'', jsonMIMEType)] else []),
      Data = data\<rparr>"

definition roundTrip :: "world \<Rightarrow> request \<Rightarrow> world" where
  "roundTrip w req = w\<lparr>clock := Suc (clock w), issued := issued w @ [req]\<rparr>"

text \<open>
  \<^verbatim>\<open>httpClient.Do(req)\<close> and the \<^verbatim>\<open>ioutil.ReadAll(res.Body)\<close> that follows it, for a
  request made after the requests \<open>log\<close>.
\<close>

definition fetch :: "env \<Rightarrow> request list \<Rightarrow> request \<Rightarrow> http_result" where
  "fetch E log req =
     (case fst (Do (Transport E log) req) of
        Responded res \<Rightarrow>
          (case ReadError E res of Some e \<Rightarrow> ReadFailed e | None \<Rightarrow> Responded res)
      | r \<Rightarrow> r)"

definition transact ::
  "env \<Rightarrow> world \<Rightarrow> string \<Rightarrow> string \<Rightarrow> json option \<Rightarrow> string outcome \<times> world" where
  "transact E w meth u data =
     (case NewRequestError E meth u of
        Some e \<Rightarrow> (Fail (HttpError e), w)
      | None \<Rightarrow>
          (case fetch E (issued w) (newRequest meth u data) of
             DoFailed e \<Rightarrow> (Fail (HttpError e), roundTrip w (newRequest meth u data))
           | ReadFailed e \<Rightarrow> (Fail (HttpError e), roundTrip w (newRequest meth u data))
           | Responded res \<Rightarrow> (classify E res, roundTrip w (newRequest meth u data))))"

text \<open>
  \<^verbatim>\<open>execute\<close> and \<^verbatim>\<open>Quit\<close> call each other: \<^verbatim>\<open>execute\<close> looks at the driver's
  token before the request and, in its deferred function, after it, and on a fired
  token quits the driver and fails with \<^verbatim>\<open>ErrCanceled\<close>; \<^verbatim>\<open>Quit\<close> sends the
  session's DELETE through \<^verbatim>\<open>execute\<close>. Both return the driver and the world as they
  leave them.
\<close>

function
  execute :: "env \<Rightarrow> world \<Rightarrow> remoteWebDriver \<Rightarrow> string \<Rightarrow> string \<Rightarrow> json option
              \<Rightarrow> string outcome \<times> remoteWebDriver \<times> world"
and
  Quit :: "env \<Rightarrow> world \<Rightarrow> remoteWebDriver \<Rightarrow> unit outcome \<times> remoteWebDriver \<times> world"
where
  "execute E w wd meth u data =
     (if Done w (ctx wd) then
        (case Quit E w wd of (q, wd', w') \<Rightarrow> (Fail ErrCanceled, wd', w'))
      else
        (case transact E w meth u data of
           (res, w1) \<Rightarrow>
             if Done w1 (ctx wd) then
               (case Quit E w1 wd of (q, wd', w') \<Rightarrow> (Fail ErrCanceled, wd', w'))
             else (res, wd, w1)))"
| "Quit E w wd =
     (if haveQuit wd then (Return (), wd, w)
      else
        (case execute E w (wd\<lparr>haveQuit := True, ctx := Background\<rparr>) ''DELETE''
                (url E (wd\<lparr>haveQuit := True, ctx := Background\<rparr>) ''/session/%s'' [id' wd])
                None of
           (Return buf, wd', w') \<Rightarrow> (Return (), wd'\<lparr>id' := []\<rparr>, w')
         | (Fail e, wd', w') \<Rightarrow> (Fail e, wd', w')
         | (Panic p, wd', w') \<Rightarrow> (Panic p, wd', w')))"
  by pat_completeness auto
termination
  by (relation "measure (\<lambda>x. case x of
        Inl (E, w, wd, meth, u, data) \<Rightarrow> (if ctx wd = Background then 0 else 2)
      | Inr (E, w, wd) \<Rightarrow> 1)")
     (auto simp: Done_def split: ctx.splits)

declare execute.simps [simp del] Quit.simps [simp del]

subsection \<open>Replies\<close>

text \<open>
  \<^verbatim>\<open>send\<close> decodes a non-empty body into a \<^verbatim>\<open>*reply\<close> that starts nil: the document
  \<^verbatim>\<open>null\<close> leaves the pointer nil, as the empty body does.
\<close>

definition unmarshal_replyPtr :: "json \<Rightarrow> reply option \<times> bool" where
  "unmarshal_replyPtr j =
     (case j of
        JNull \<Rightarrow> (None, True)
      | _ \<Rightarrow> (case unmarshal_reply j reply0 of (r, ok) \<Rightarrow> (Some r, ok)))"

definition send ::
  "env \<Rightarrow> world \<Rightarrow> remoteWebDriver \<Rightarrow> string \<Rightarrow> string \<Rightarrow> json option
   \<Rightarrow> reply option outcome \<times> remoteWebDriver \<times> world" where
  "send E w wd meth u data =
     (case execute E w wd meth u data of
        (Return buf, wd', w') \<Rightarrow>
          if buf \<noteq> [] then
            (case json_of_bytes (Parse E) buf of
               None \<Rightarrow> (Fail JsonError, wd', w')
             | Some j \<Rightarrow>
                 (case unmarshal_replyPtr j of
                    (r, True) \<Rightarrow> (Return r, wd', w')
                  | (r, False) \<Rightarrow> (Fail JsonError, wd', w')))
          else (Return None, wd', w')
      | (Fail e, wd', w') \<Rightarrow> (Fail e, wd', w')
      | (Panic p, wd', w') \<Rightarrow> (Panic p, wd', w'))"

text \<open>
  \<^verbatim>\<open>r.readValue(&v)\<close> is \<^verbatim>\<open>json.Unmarshal(r.Value, v)\<close>. On a nil reply the read of
  \<^verbatim>\<open>r.Value\<close> is a nil pointer dereference. \<open>dec\<close> is the decoder of the target's
  type: the decoded value, or \<open>None\<close> for an error.
\<close>

definition readValue :: "reply option \<Rightarrow> (json option \<Rightarrow> 'a option) \<Rightarrow> 'a outcome" where
  "readValue r dec =
     (case r of
        None \<Rightarrow> Panic NilDereference
      | Some rp \<Rightarrow> (case dec (Value rp) of None \<Rightarrow> Fail JsonError | Some v \<Rightarrow> Return v))"

definition decString :: "json option \<Rightarrow> string option" where
  "decString raw = (case raw of None \<Rightarrow> None | Some j \<Rightarrow> storeString j [])"

definition decBool :: "json option \<Rightarrow> bool option" where
  "decBool raw = (case raw of None \<Rightarrow> None | Some j \<Rightarrow> storeBool j False)"

text \<open>
  A slice target takes an array element by element (a mismatch in one element is an
  error of the whole decode) and \<^verbatim>\<open>null\<close> as the nil slice.
\<close>

fun decAll :: "(json \<Rightarrow> 'a option) \<Rightarrow> json list \<Rightarrow> 'a list option" where
  "decAll f [] = Some []"
| "decAll f (j # js) =
     (case f j of
        None \<Rightarrow> None
      | Some v \<Rightarrow> (case decAll f js of None \<Rightarrow> None | Some vs \<Rightarrow> Some (v # vs)))"

definition decSlice :: "(json \<Rightarrow> 'a option) \<Rightarrow> json option \<Rightarrow> 'a list option" where
  "decSlice f raw =
     (case raw of
        Some (JArray js) \<Rightarrow> decAll f js
      | Some JNull \<Rightarrow> Some []
      | _ \<Rightarrow> None)"

definition decStrings :: "json option \<Rightarrow> string list option" where
  "decStrings = decSlice (\<lambda>j. storeString j [])"

text \<open>The target \<^verbatim>\<open>interface{}\<close> takes every document.\<close>

definition decAny :: "json option \<Rightarrow> json option" where
  "decAny raw = raw"

subsection \<open>The command helpers\<close>

definition stringCommand ::
  "env \<Rightarrow> world \<Rightarrow> remoteWebDriver \<Rightarrow> string
   \<Rightarrow> string outcome \<times> remoteWebDriver \<times> world" where
  "stringCommand E w wd urlTemplate =
     (case send E w wd ''GET'' (url E wd urlTemplate [id' wd]) None of
        (Return r, wd', w') \<Rightarrow> (readValue r decString, wd', w')
      | (Fail e, wd', w') \<Rightarrow> (Fail e, wd', w')
      | (Panic p, wd', w') \<Rightarrow> (Panic p, wd', w'))"

definition boolCommand ::
  "env \<Rightarrow> world \<Rightarrow> remoteWebDriver \<Rightarrow> string
   \<Rightarrow> bool outcome \<times> remoteWebDriver \<times> world" where
  "boolCommand E w wd urlTemplate =
     (case send E w wd ''GET'' (url E wd urlTemplate [id' wd]) None of
        (Return r, wd', w') \<Rightarrow> (readValue r decBool, wd', w')
      | (Fail e, wd', w') \<Rightarrow> (Fail e, wd', w')
      | (Panic p, wd', w') \<Rightarrow> (Panic p, wd', w'))"

text \<open>
  \<^verbatim>\<open>stringsCommand\<close> has a value receiver: it runs on a copy of the driver struct, and
  what the call does to the copy (a quit after a fired token) is lost when it returns.
  The caller's driver is as before; the world is not.
\<close>

definition stringsCommand ::
  "env \<Rightarrow> world \<Rightarrow> remoteWebDriver \<Rightarrow> string
   \<Rightarrow> string list outcome \<times> remoteWebDriver \<times> world" where
  "stringsCommand E w wd urlTemplate =
     (case send E w wd ''GET'' (url E wd urlTemplate [id' wd]) None of
        (Return r, copy, w') \<Rightarrow> (readValue r decStrings, wd, w')
      | (Fail e, copy, w') \<Rightarrow> (Fail e, wd, w')
      | (Panic p, copy, w') \<Rightarrow> (Panic p, wd, w'))"

text \<open>
  The values handed to \<^verbatim>\<open>json.Marshal\<close> as \<^verbatim>\<open>interface{}\<close>: nil, booleans, numbers
  (by the literal Marshal writes), strings, slices, maps with string keys (members in
  the order Marshal writes them), a value Marshal refuses, and the two pointers the
  script arguments are about: \<^verbatim>\<open>*remoteWE\<close> (the handle, by its id; \<open>None\<close> is the nil
  pointer of that type) and \<^verbatim>\<open>*element\<close>.
\<close>

record remoteWE =
  we_id :: string

record element =
  Element :: string

datatype goval =
    GNil
  | GBool bool
  | GNumber string
  | GString string
  | GSlice "goval list"
  | GMap "(string \<times> goval) list"
  | GUnsupported
  | GRemoteWE "remoteWE option"
  | GElement element

text \<open>
  \<^verbatim>\<open>json.Marshal\<close>: \<open>None\<close> is an error. The struct \<^verbatim>\<open>remoteWE\<close> has no exported
  field, so a handle is written as the empty object (a nil pointer as \<^verbatim>\<open>null\<close>);
  \<^verbatim>\<open>element\<close> is written as its reference object.
\<close>

fun Marshal :: "goval \<Rightarrow> json option"
and MarshalList :: "goval list \<Rightarrow> json list option"
and MarshalMembers :: "(string \<times> goval) list \<Rightarrow> (string \<times> json) list option" where
  "Marshal GNil = Some JNull"
| "Marshal (GBool b) = Some (JBool b)"
| "Marshal (GNumber lit) = Some (JNumber lit)"
| "Marshal (GString s) = Some (JString s)"
| "Marshal (GSlice vs) = map_option JArray (MarshalList vs)"
| "Marshal (GMap kvs) = map_option JObject (MarshalMembers kvs)"
| "Marshal GUnsupported = None"
| "Marshal (GRemoteWE None) = Some JNull"
| "Marshal (GRemoteWE (Some h)) = Some (JObject [])"
| "Marshal (GElement e) = Some (JObject [(''ELEMENT'', JString (Element e))])"
| "MarshalList [] = Some []"
| "MarshalList (v # vs) =
     (case Marshal v of
        None \<Rightarrow> None
      | Some j \<Rightarrow> (case MarshalList vs of None \<Rightarrow> None | Some js \<Rightarrow> Some (j # js)))"
| "MarshalMembers [] = Some []"
| "MarshalMembers ((k, v) # kvs) =
     (case Marshal v of
        None \<Rightarrow> None
      | Some j \<Rightarrow>
          (case MarshalMembers kvs of None \<Rightarrow> None | Some js \<Rightarrow> Some ((k, j) # js)))"

definition voidCommand ::
  "env \<Rightarrow> world \<Rightarrow> remoteWebDriver \<Rightarrow> string \<Rightarrow> goval option
   \<Rightarrow> unit outcome \<times> remoteWebDriver \<times> world" where
  "voidCommand E w wd urlTemplate params =
     (case (case params of None \<Rightarrow> Some None | Some p \<Rightarrow> map_option Some (Marshal p)) of
        None \<Rightarrow> (Fail JsonError, wd, w)
      | Some data \<Rightarrow>
          (case send E w wd ''POST'' (url E wd urlTemplate [id' wd]) data of
             (Return r, wd', w') \<Rightarrow> (Return (), wd', w')
           | (Fail e, wd', w') \<Rightarrow> (Fail e, wd', w')
           | (Panic p, wd', w') \<Rightarrow> (Panic p, wd', w')))"

subsection \<open>Sessions\<close>

definition defaultExecutor :: string where
  "defaultExecutor = ''http://127.0.0.1:4444/wd/hub''"

definition NewSession ::
  "env \<Rightarrow> world \<Rightarrow> remoteWebDriver \<Rightarrow> string outcome \<times> remoteWebDriver \<times> world" where
  "NewSession E w wd =
     (case capabilities wd of
        None \<Rightarrow> (Fail JsonError, wd, w)
      | Some caps \<Rightarrow>
          (case send E w wd ''POST'' (url E wd ''/session'' [])
                  (Some (JObject [(''desiredCapabilities'', caps)])) of
             (Return None, wd', w') \<Rightarrow> (Panic NilDereference, wd', w')
           | (Return (Some r), wd', w') \<Rightarrow>
               (Return (SessionId r), wd'\<lparr>id' := SessionId r\<rparr>, w')
           | (Fail e, wd', w') \<Rightarrow> (Fail e, wd', w')
           | (Panic p, wd', w') \<Rightarrow> (Panic p, wd', w')))"

text \<open>The driver struct \<^verbatim>\<open>NewRemote\<close> makes before it opens the session.\<close>

definition newDriver :: "json option \<Rightarrow> string \<Rightarrow> remoteWebDriver" where
  "newDriver caps exec =
     \<lparr>id' = [], executor = (if exec = [] then defaultExecutor else exec),
      capabilities = caps, ctx = Background, haveQuit = False\<rparr>"

definition NewRemote ::
  "env \<Rightarrow> world \<Rightarrow> json option \<Rightarrow> string \<Rightarrow> remoteWebDriver outcome \<times> world" where
  "NewRemote E w caps exec =
     (case NewSession E w (newDriver caps exec) of
        (Return sid, wd, w') \<Rightarrow> (Return wd, w')
      | (Fail e, wd, w') \<Rightarrow> (Fail e, w')
      | (Panic p, wd, w') \<Rightarrow> (Panic p, w'))"

definition GetSessionID :: "remoteWebDriver \<Rightarrow> string" where
  "GetSessionID wd = id' wd"

text \<open>
  \<^verbatim>\<open>Capabilities\<close> drops the error of \<^verbatim>\<open>readValue\<close>; a nil reply still panics.
\<close>

definition Capabilities ::
  "env \<Rightarrow> world \<Rightarrow> remoteWebDriver \<Rightarrow> (json option \<Rightarrow> json option)
   \<Rightarrow> json option outcome \<times> remoteWebDriver \<times> world" where
  "Capabilities E w wd dec =
     (case send E w wd ''GET'' (url E wd ''/session/%s'' [id' wd]) None of
        (Return r, wd', w') \<Rightarrow>
          (case readValue r dec of
             Return v \<Rightarrow> (Return (Some v), wd', w')
           | Fail e \<Rightarrow> (Return None, wd', w')
           | Panic p \<Rightarrow> (Panic p, wd', w'))
      | (Fail e, wd', w') \<Rightarrow> (Fail e, wd', w')
      | (Panic p, wd', w') \<Rightarrow> (Panic p, wd', w'))"

subsection \<open>Commands that read a typed value, post a value or delete\<close>

text \<open>
  \<^verbatim>\<open>Status\<close>, \<^verbatim>\<open>Sessions\<close>, \<^verbatim>\<open>WindowSize\<close>, \<^verbatim>\<open>WindowPosition\<close> and the element's
  \<^verbatim>\<open>location\<close> and \<^verbatim>\<open>Size\<close> share one body: a GET through \<^verbatim>\<open>send\<close>, then
  \<^verbatim>\<open>readValue\<close> into a struct. \<open>args\<close> are the arguments of the URL template and
  \<open>dec\<close> the decoder of the struct.
\<close>

definition getValue ::
  "env \<Rightarrow> world \<Rightarrow> remoteWebDriver \<Rightarrow> string \<Rightarrow> string list
   \<Rightarrow> (json option \<Rightarrow> 'a option) \<Rightarrow> 'a outcome \<times> remoteWebDriver \<times> world" where
  "getValue E w wd template args dec =
     (case send E w wd ''GET'' (url E wd template args) None of
        (Return r, wd', w') \<Rightarrow> (readValue r dec, wd', w')
      | (Fail e, wd', w') \<Rightarrow> (Fail e, wd', w')
      | (Panic p, wd', w') \<Rightarrow> (Panic p, wd', w'))"

definition WindowSize ::
  "env \<Rightarrow> world \<Rightarrow> remoteWebDriver \<Rightarrow> string \<Rightarrow> (json option \<Rightarrow> 'a option)
   \<Rightarrow> 'a outcome \<times> remoteWebDriver \<times> world" where
  "WindowSize E w wd name dec =
     getValue E w wd ''/session/%s/window/%s/size''
       [id' wd, if name = [] then ''current'' else name] dec"

text \<open>
  \<^verbatim>\<open>Close\<close>, \<^verbatim>\<open>CloseWindow\<close>, \<^verbatim>\<open>DeleteAllCookies\<close> and \<^verbatim>\<open>DeleteCookie\<close> hand a
  DELETE straight to \<^verbatim>\<open>execute\<close>.
\<close>

definition deleteCommand ::
  "env \<Rightarrow> world \<Rightarrow> remoteWebDriver \<Rightarrow> string \<Rightarrow> string list
   \<Rightarrow> unit outcome \<times> remoteWebDriver \<times> world" where
  "deleteCommand E w wd template args =
     (case execute E w wd ''DELETE'' (url E wd template args) None of
        (Return buf, wd', w') \<Rightarrow> (Return (), wd', w')
      | (Fail e, wd', w') \<Rightarrow> (Fail e, wd', w')
      | (Panic p, wd', w') \<Rightarrow> (Panic p, wd', w'))"

definition DeleteCookie ::
  "env \<Rightarrow> world \<Rightarrow> remoteWebDriver \<Rightarrow> string
   \<Rightarrow> unit outcome \<times> remoteWebDriver \<times> world" where
  "DeleteCookie E w wd name =
     deleteCommand E w wd ''/session/%s/cookie/%s'' [id' wd, name]"

text \<open>\<^verbatim>\<open>ResizeWindow\<close> marshals its argument and posts it through \<^verbatim>\<open>send\<close>.\<close>

definition ResizeWindow ::
  "env \<Rightarrow> world \<Rightarrow> remoteWebDriver \<Rightarrow> string \<Rightarrow> goval
   \<Rightarrow> unit outcome \<times> remoteWebDriver \<times> world" where
  "ResizeWindow E w wd name to =
     (case Marshal to of
        None \<Rightarrow> (Fail JsonError, wd, w)
      | Some data \<Rightarrow>
          (case send E w wd ''POST''
                  (url E wd ''/session/%s/window/%s/size''
                     [id' wd, if name = [] then ''current'' else name])
                  (Some data) of
             (Return r, wd', w') \<Rightarrow> (Return (), wd', w')
           | (Fail e, wd', w') \<Rightarrow> (Fail e, wd', w')
           | (Panic p, wd', w') \<Rightarrow> (Panic p, wd', w')))"

subsection \<open>Element handles\<close>

definition find ::
  "env \<Rightarrow> world \<Rightarrow> remoteWebDriver \<Rightarrow> string \<Rightarrow> string \<Rightarrow> string \<Rightarrow> string
   \<Rightarrow> reply option outcome \<times> remoteWebDriver \<times> world" where
  "find E w wd by val suffix u =
     send E w wd ''POST''
       (url E wd ((if u = [] then ''/session/%s/element'' else u) @ suffix) [id' wd])
       (Some (JObject [(''using'', JString by), (''value'', JString val)]))"

text \<open>
  \<^verbatim>\<open>decodeElement\<close> and \<^verbatim>\<open>decodeElements\<close> return no error: when \<^verbatim>\<open>readValue\<close>
  fails they call \<^verbatim>\<open>panic\<close> with the error and the raw value.
\<close>

definition decElement :: "json \<Rightarrow> element option" where
  "decElement j =
     (case unmarshal_stringStruct ''ELEMENT'' j [] of
        (e, True) \<Rightarrow> Some \<lparr>Element = e\<rparr>
      | (e, False) \<Rightarrow> None)"

definition decodeElement :: "reply option \<Rightarrow> remoteWE outcome" where
  "decodeElement r =
     (case r of
        None \<Rightarrow> Panic NilDereference
      | Some rp \<Rightarrow>
          (case (case Value rp of None \<Rightarrow> None | Some j \<Rightarrow> decElement j) of
             None \<Rightarrow> Panic (DecodePanic (Value rp))
           | Some elem \<Rightarrow> Return \<lparr>we_id = Element elem\<rparr>))"

definition decodeElements :: "reply option \<Rightarrow> remoteWE list outcome" where
  "decodeElements r =
     (case r of
        None \<Rightarrow> Panic NilDereference
      | Some rp \<Rightarrow>
          (case decSlice decElement (Value rp) of
             None \<Rightarrow> Panic (DecodePanic (Value rp))
           | Some elems \<Rightarrow> Return (map (\<lambda>elem. \<lparr>we_id = Element elem\<rparr>) elems)))"



text \<open>The same two calls on an element handle, below that element.\<close>

definition elem_FindElement ::
  "env \<Rightarrow> world \<Rightarrow> remoteWebDriver \<Rightarrow> remoteWE \<Rightarrow> string \<Rightarrow> string
   \<Rightarrow> remoteWE outcome \<times> remoteWebDriver \<times> world" where
  "elem_FindElement E w wd elem by val =
     (case find E w wd by val []
             (Sprintf (Format E) ''/session/%%s/element/%s/element'' [we_id elem]) of
        (Return res, wd', w') \<Rightarrow> (decodeElement res, wd', w')
      | (Fail e, wd', w') \<Rightarrow> (Fail e, wd', w')
      | (Panic p, wd', w') \<Rightarrow> (Panic p, wd', w'))"

definition elem_FindElements ::
  "env \<Rightarrow> world \<Rightarrow> remoteWebDriver \<Rightarrow> remoteWE \<Rightarrow> string \<Rightarrow> string
   \<Rightarrow> remoteWE list outcome \<times> remoteWebDriver \<times> world" where
  "elem_FindElements E w wd elem by val =
     (case find E w wd by val ''s''
             (Sprintf (Format E) ''/session/%%s/element/%s/element'' [we_id elem]) of
        (Return res, wd', w') \<Rightarrow> (decodeElements res, wd', w')
      | (Fail e, wd', w') \<Rightarrow> (Fail e, wd', w')
      | (Panic p, wd', w') \<Rightarrow> (Panic p, wd', w'))"

definition ActiveElement ::
  "env \<Rightarrow> world \<Rightarrow> remoteWebDriver \<Rightarrow> remoteWE outcome \<times> remoteWebDriver \<times> world" where
  "ActiveElement E w wd =
     (case send E w wd ''GET'' (url E wd ''/session/%s/element/active'' [id' wd]) None of
        (Return r, wd', w') \<Rightarrow> (decodeElement r, wd', w')
      | (Fail e, wd', w') \<Rightarrow> (Fail e, wd', w')
      | (Panic p, wd', w') \<Rightarrow> (Panic p, wd', w'))"

subsection \<open>Cookies\<close>

text \<open>
  The struct \<^verbatim>\<open>Cookie\<close>. The tag of \<^verbatim>\<open>Expiry\<close> is \<^verbatim>\<open>json:"-"\<close>: the decoder never
  touches it. \<^verbatim>\<open>Expiry\<close> is a \<^verbatim>\<open>uint\<close>, taken as 64 bits wide: a natural number
  below \<open>2 ^ 64\<close>.
\<close>

record Cookie =
  Name :: string
  Value' :: string
  Path :: string
  Domain :: string
  Secure :: bool
  Expiry :: nat

definition cookie0 :: Cookie where
  "cookie0 = \<lparr>Name = [], Value' = [], Path = [], Domain = [], Secure = False, Expiry = 0\<rparr>"

fun cookieMembers :: "(string \<times> json) list \<Rightarrow> Cookie \<Rightarrow> bool \<Rightarrow> Cookie \<times> bool" where
  "cookieMembers [] c ok = (c, ok)"
| "cookieMembers ((k, v) # kvs) c ok =
     (if isField ''name'' k then
        (case storeString v (Name c) of
           Some s \<Rightarrow> cookieMembers kvs (c\<lparr>Name := s\<rparr>) ok
         | None \<Rightarrow> cookieMembers kvs c False)
      else if isField ''value'' k then
        (case storeString v (Value' c) of
           Some s \<Rightarrow> cookieMembers kvs (c\<lparr>Value' := s\<rparr>) ok
         | None \<Rightarrow> cookieMembers kvs c False)
      else if isField ''path'' k then
        (case storeString v (Path c) of
           Some s \<Rightarrow> cookieMembers kvs (c\<lparr>Path := s\<rparr>) ok
         | None \<Rightarrow> cookieMembers kvs c False)
      else if isField ''domain'' k then
        (case storeString v (Domain c) of
           Some s \<Rightarrow> cookieMembers kvs (c\<lparr>Domain := s\<rparr>) ok
         | None \<Rightarrow> cookieMembers kvs c False)
      else if isField ''secure'' k then
        (case storeBool v (Secure c) of
           Some b \<Rightarrow> cookieMembers kvs (c\<lparr>Secure := b\<rparr>) ok
         | None \<Rightarrow> cookieMembers kvs c False)
      else cookieMembers kvs c ok)"

definition decCookie :: "json \<Rightarrow> Cookie option" where
  "decCookie j =
     (case j of
        JObject kvs \<Rightarrow>
          (case cookieMembers kvs cookie0 True of
             (c, True) \<Rightarrow> Some c
           | (c, False) \<Rightarrow> None)
      | JNull \<Rightarrow> Some cookie0
      | _ \<Rightarrow> None)"

definition decCookies :: "json option \<Rightarrow> Cookie list option" where
  "decCookies = decSlice decCookie"

text \<open>
  The grammar of a JSON number (\<^verbatim>\<open>isValidNumber\<close> of \<^verbatim>\<open>encoding/json\<close>), read into
  its parts: the sign, the digits before the point, the digits after it and the
  exponent.
\<close>

definition numExponent :: "string \<Rightarrow> int option" where
  "numExponent s =
     (if s = [] then Some 0
      else if take 1 s = ''e'' \<or> take 1 s = ''E'' then
        (let t = drop 1 s;
             ds = (if take 1 t = ''+'' \<or> take 1 t = ''-'' then drop 1 t else t)
         in if ds = [] then None
            else if list_all isDigit ds then
              Some (if take 1 t = ''-'' then - int (natOfDigits 0 ds)
                    else int (natOfDigits 0 ds))
            else None)
      else None)"

definition numParts :: "string \<Rightarrow> (bool \<times> string \<times> string \<times> int) option" where
  "numParts s =
     (let s1 = (if take 1 s = ''-'' then drop 1 s else s);
          ip = takeWhile isDigit s1;
          s2 = dropWhile isDigit s1;
          fp = (if take 1 s2 = ''.'' then takeWhile isDigit (drop 1 s2) else []);
          s3 = (if take 1 s2 = ''.'' then dropWhile isDigit (drop 1 s2) else s2)
      in if ip = [] then None
         else if 1 < length ip \<and> take 1 ip = ''0'' then None
         else if take 1 s2 = ''.'' \<and> fp = [] then None
         else (case numExponent s3 of
                 None \<Rightarrow> None
               | Some ex \<Rightarrow> Some (take 1 s = ''-'', ip, fp, ex)))"

text \<open>
  The number a literal denotes, as a sign and a fraction of naturals \<open>num / den\<close>.
\<close>

definition litValue :: "string \<Rightarrow> (bool \<times> nat \<times> nat) option" where
  "litValue lit =
     (case numParts lit of
        None \<Rightarrow> None
      | Some (neg, ip, fp, ex) \<Rightarrow>
          (let m = natOfDigits 0 (ip @ fp); e = ex - int (length fp)
           in Some (neg, if 0 \<le> e then m * 10 ^ nat e else m,
                    if 0 \<le> e then 1 else 10 ^ nat (- e))))"

text \<open>
  A field of type \<^verbatim>\<open>json.Number\<close> keeps the literal of a number, takes a string that
  spells a number, and is left alone by \<^verbatim>\<open>null\<close>.
\<close>

fun storeNumber :: "json \<Rightarrow> string \<Rightarrow> string option" where
  "storeNumber (JNumber lit) cur = Some lit"
| "storeNumber (JString s) cur = (if numParts s = None then None else Some s)"
| "storeNumber JNull cur = Some cur"
| "storeNumber _ cur = None"

definition decExpiry :: "json \<Rightarrow> string option" where
  "decExpiry j =
     (case unmarshal_fieldStruct storeNumber ''Expiry'' j [] of
        (n, True) \<Rightarrow> Some n
      | (n, False) \<Rightarrow> None)"

definition decExpiries :: "json option \<Rightarrow> string list option" where
  "decExpiries = decSlice decExpiry"

text \<open>
  \<^verbatim>\<open>Number.Float64\<close> and the conversion to \<^verbatim>\<open>uint\<close>. The literal is rounded to the
  nearest \<^verbatim>\<open>float64\<close> (53 significant bits, ties to even) and the conversion cuts the
  fraction off. \<open>truncFloat64 num den\<close> is the integer part of the \<^verbatim>\<open>float64\<close>
  nearest to \<open>num / den\<close>: with \<open>N\<close> the integer part of the fraction itself and
  \<open>b\<close> the number of bits of \<open>N\<close>, a number of 54 bits or more is rounded to a
  multiple of \<open>2 ^ (b - 53)\<close>, a number of 53 bits to an integer, and a smaller one
  reaches \<open>N + 1\<close> only from within half a unit in the last place below it.
\<close>

fun bitlen :: "nat \<Rightarrow> nat" where
  "bitlen n = (if n = 0 then 0 else Suc (bitlen (n div 2)))"

declare bitlen.simps [simp del]

definition truncFloat64 :: "nat \<Rightarrow> nat \<Rightarrow> nat" where
  "truncFloat64 num den =
     (let N = num div den; f = num mod den; b = bitlen N
      in if 54 \<le> b then
           (let sh = b - 53; base = N div 2 ^ sh; rem = N mod 2 ^ sh; half = 2 ^ (sh - 1)
            in (base + (if half < rem \<or> (rem = half \<and> (0 < f \<or> odd base)) then 1 else 0))
               * 2 ^ sh)
         else if b = 53 then
           N + (if den < 2 * f \<or> (2 * f = den \<and> odd N) then 1 else 0)
         else N + (if (den - f) * 2 ^ (54 - b) \<le> den then 1 else 0))"

text \<open>
  A literal beyond the largest \<^verbatim>\<open>float64\<close> makes \<^verbatim>\<open>Float64\<close> fail. A \<^verbatim>\<open>float64\<close>
  whose integer part no \<^verbatim>\<open>uint\<close> holds (negative, or \<open>2 ^ 64\<close> and more) converts to
  a value the Go specification leaves to the implementation: the parameter \<open>impl\<close>,
  from the sign and the magnitude.
\<close>

definition Float64_uint :: "(bool \<Rightarrow> nat \<Rightarrow> nat) \<Rightarrow> string \<Rightarrow> nat option" where
  "Float64_uint impl lit =
     (case litValue lit of
        None \<Rightarrow> None
      | Some (neg, num, den) \<Rightarrow>
          if (2 ^ 1024 - 2 ^ 970) * den \<le> num then None
          else (let t = truncFloat64 num den
                in if t = 0 then Some 0
                   else if neg \<or> 2 ^ 64 \<le> t then Some (impl neg t)
                   else Some t))"

text \<open>
  The loop of \<^verbatim>\<open>parseCookieExpiry\<close>: cookie \<open>i\<close> reads \<^verbatim>\<open>expiries[i]\<close>, which
  panics when there is no such element.
\<close>

fun patchExpiry :: "(bool \<Rightarrow> nat \<Rightarrow> nat) \<Rightarrow> Cookie list \<Rightarrow> string list \<Rightarrow> Cookie list option" where
  "patchExpiry impl [] es = Some []"
| "patchExpiry impl (c # cs) [] = None"
| "patchExpiry impl (c # cs) (e # es) =
     (case patchExpiry impl cs es of
        None \<Rightarrow> None
      | Some cs' \<Rightarrow>
          Some ((case Float64_uint impl e of
                   None \<Rightarrow> c
                 | Some n \<Rightarrow> c\<lparr>Expiry := n\<rparr>) # cs'))"

definition parseCookieExpiry ::
  "(bool \<Rightarrow> nat \<Rightarrow> nat) \<Rightarrow> Cookie list \<Rightarrow> json option \<Rightarrow> Cookie list outcome" where
  "parseCookieExpiry impl cookies raw =
     (case decExpiries raw of
        None \<Rightarrow> Return cookies
      | Some expiries \<Rightarrow>
          (case patchExpiry impl cookies expiries of
             None \<Rightarrow> Panic IndexOutOfRange
           | Some cookies' \<Rightarrow> Return cookies'))"

definition GetCookies ::
  "env \<Rightarrow> world \<Rightarrow> remoteWebDriver \<Rightarrow> Cookie list outcome \<times> remoteWebDriver \<times> world" where
  "GetCookies E w wd =
     (case send E w wd ''GET'' (url E wd ''/session/%s/cookie'' [id' wd]) None of
        (Return None, wd', w') \<Rightarrow> (Panic NilDereference, wd', w')
      | (Return (Some r), wd', w') \<Rightarrow>
          (case decCookies (Value r) of
             None \<Rightarrow> (Fail JsonError, wd', w')
           | Some c \<Rightarrow> (parseCookieExpiry (UintOf E) c (Value r), wd', w'))
      | (Fail e, wd', w') \<Rightarrow> (Fail e, wd', w')
      | (Panic p, wd', w') \<Rightarrow> (Panic p, wd', w'))"

subsection \<open>Scripts\<close>

text \<open>
  The loop of \<^verbatim>\<open>execScript\<close> over its arguments: an argument whose dynamic type is
  \<^verbatim>\<open>*remoteWE\<close> is replaced by an \<^verbatim>\<open>*element\<close> with the handle's id (reading the id
  of a nil handle is a nil pointer dereference); every other argument stays.
\<close>

fun rewriteArg :: "goval \<Rightarrow> goval option" where
  "rewriteArg (GRemoteWE None) = None"
| "rewriteArg (GRemoteWE (Some v)) = Some (GElement \<lparr>Element = we_id v\<rparr>)"
| "rewriteArg arg = Some arg"

fun rewriteArgs :: "goval list \<Rightarrow> goval list option" where
  "rewriteArgs [] = Some []"
| "rewriteArgs (arg # args) =
     (case rewriteArg arg of
        None \<Rightarrow> None
      | Some a \<Rightarrow> (case rewriteArgs args of None \<Rightarrow> None | Some as \<Rightarrow> Some (a # as)))"

text \<open>
  The map \<^verbatim>\<open>params\<close> is marshaled with its keys sorted: \<^verbatim>\<open>args\<close>, then
  \<^verbatim>\<open>script\<close>.
\<close>

definition scriptParams :: "string \<Rightarrow> goval list \<Rightarrow> goval" where
  "scriptParams script args = GMap [(''args'', GSlice args), (''script'', GString script)]"

definition execScript ::
  "env \<Rightarrow> world \<Rightarrow> remoteWebDriver \<Rightarrow> string \<Rightarrow> goval list option \<Rightarrow> string
   \<Rightarrow> json outcome \<times> remoteWebDriver \<times> world" where
  "execScript E w wd script args suffix =
     (case rewriteArgs (case args of None \<Rightarrow> [] | Some as \<Rightarrow> as) of
        None \<Rightarrow> (Panic NilDereference, wd, w)
      | Some args' \<Rightarrow>
          (case Marshal (scriptParams script args') of
             None \<Rightarrow> (Fail JsonError, wd, w)
           | Some data \<Rightarrow>
               (case send E w wd ''POST'' (url E wd (''/session/%s/execute'' @ suffix) [id' wd])
                       (Some data) of
                  (Return r, wd', w') \<Rightarrow> (readValue r decAny, wd', w')
                | (Fail e, wd', w') \<Rightarrow> (Fail e, wd', w')
                | (Panic p, wd', w') \<Rightarrow> (Panic p, wd', w'))))"

definition ExecuteScript ::
  "env \<Rightarrow> world \<Rightarrow> remoteWebDriver \<Rightarrow> string \<Rightarrow> goval list option
   \<Rightarrow> json outcome \<times> remoteWebDriver \<times> world" where
  "ExecuteScript E w wd script args = execScript E w wd script args []"

definition ExecuteScriptAsync ::
  "env \<Rightarrow> world \<Rightarrow> remoteWebDriver \<Rightarrow> string \<Rightarrow> goval list option
   \<Rightarrow> json outcome \<times> remoteWebDriver \<times> world" where
  "ExecuteScriptAsync E w wd script args = execScript E w wd script args ''_async''"

text \<open>The request \<^verbatim>\<open>Quit\<close> sends for the session of a driver.\<close>

definition sessionDelete :: "remoteWebDriver \<Rightarrow> request" where
  "sessionDelete wd = newRequest ''DELETE'' (executor wd @ ''/session/'' @ id' wd) None"

section \<open>Reference statements and sample inputs\<close>

text \<open>
  The error text as the specification words it: the catalog message, a dash, and the
  backend message between double quotes.
\<close>

definition spec_errorText :: "string \<Rightarrow> string \<Rightarrow> string" where
  "spec_errorText catalog backend = catalog @ '' - '' @ [CHR 0x22] @ backend @ [CHR 0x22]"

text \<open>A byte \<^verbatim>\<open>strconv.Quote\<close> copies: printable ASCII but the quote and the backslash.\<close>

definition plainByte :: "char \<Rightarrow> bool" where
  "plainByte c = (32 \<le> (of_char c :: nat) \<and> (of_char c :: nat) < 127
                  \<and> (of_char c :: nat) \<noteq> 34 \<and> (of_char c :: nat) \<noteq> 92)"

text \<open>
  Sample byte strings with the documents they spell, and the parser that knows exactly
  these: \<open>msgBoom\<close> is \<^verbatim>\<open>{"errorMessage":"boom"}\<close>, \<open>msgQuoted\<close> is
  \<^verbatim>\<open>{"errorMessage":"a\"b"}\<close>.
\<close>

definition dq :: string where
  "dq = [CHR 0x22]"

definition msgBoom :: string where
  "msgBoom = ''{'' @ dq @ ''errorMessage'' @ dq @ '':'' @ dq @ ''boom'' @ dq @ ''}''"

definition msgQuoted :: string where
  "msgQuoted = ''{'' @ dq @ ''errorMessage'' @ dq @ '':'' @ dq
               @ [CHR ''a'', CHR 0x5C, CHR 0x22, CHR ''b''] @ dq @ ''}''"

definition docBoom :: json where
  "docBoom = JObject [(''errorMessage'', JString ''boom'')]"

definition docQuoted :: json where
  "docQuoted = JObject [(''errorMessage'', JString [CHR ''a'', CHR 0x22, CHR ''b''])]"

definition sampleParser :: parser where
  "sampleParser = map_of [(msgBoom, docBoom), (msgQuoted, docQuoted)]"

definition noPrintTable :: "nat \<Rightarrow> bool" where
  "noPrintTable r = False"

definition replyBoom :: reply where
  "replyBoom = \<lparr>SessionId = [], Status = 11,
                 Value = Some (JObject [(''message'', JString msgBoom)])\<rparr>"

definition replyQuoted :: reply where
  "replyQuoted = \<lparr>SessionId = [], Status = 11,
                   Value = Some (JObject [(''message'', JString msgQuoted)])\<rparr>"

definition replyUnknown :: reply where
  "replyUnknown = \<lparr>SessionId = [], Status = 99, Value = None\<rparr>"

text \<open>
  An environment around a given remote end: the sample parser, no printable rune above
  U+00FF, and every request accepted by \<^verbatim>\<open>http.NewRequest\<close>.
\<close>

definition sampleEnv :: "(request list \<Rightarrow> request \<Rightarrow> hop) \<Rightarrow> env" where
  "sampleEnv srv =
     \<lparr>Parse = sampleParser, PrintTable = noPrintTable, UintOf = (\<lambda>neg t. 0),
      Format = (\<lambda>format a n. []), NewRequestError = (\<lambda>meth u. None), Transport = srv,
      ReadError = (\<lambda>res. None)\<rparr>"

definition world0 :: world where
  "world0 = \<lparr>clock = 0, issued = []\<rparr>"

text \<open>A remote end that cannot be reached.\<close>

definition noServer :: "request list \<Rightarrow> request \<Rightarrow> hop" where
  "noServer log req = Broken ''connection refused''"

text \<open>
  A remote end that answers every request with \<^verbatim>\<open>200 OK\<close> and no body, and the
  responses of remote ends that answer with a \<^verbatim>\<open>500\<close> and a page that is not JSON,
  with a \<^verbatim>\<open>404\<close> whose body is the envelope \<^verbatim>\<open>{"status":0}\<close>, and with a
  \<^verbatim>\<open>500\<close> whose body is the envelope \<^verbatim>\<open>{"status":11}\<close>.
\<close>

definition okServer :: "request list \<Rightarrow> request \<Rightarrow> hop" where
  "okServer log req =
     Final \<lparr>StatusCode = 200, HttpStatus = ''200 OK'', ContentType = [], Body = []\<rparr>"

definition res500 :: response where
  "res500 = \<lparr>StatusCode = 500, HttpStatus = ''500 Internal Server Error'',
              ContentType = ''text/html'', Body = ''<html></html>''\<rparr>"

definition bodyStatus0 :: string where
  "bodyStatus0 = ''{'' @ dq @ ''status'' @ dq @ '':0}''"

definition res404 :: response where
  "res404 = \<lparr>StatusCode = 404, HttpStatus = ''404 Not Found'',
              ContentType = ''application/json'', Body = bodyStatus0\<rparr>"

definition bodyStatus11 :: string where
  "bodyStatus11 = ''{'' @ dq @ ''status'' @ dq @ '':11}''"

definition res500s11 :: response where
  "res500s11 = \<lparr>StatusCode = 500, HttpStatus = ''500 Internal Server Error'',
                 ContentType = ''application/json'', Body = bodyStatus11\<rparr>"

definition sampleParser2 :: parser where
  "sampleParser2 = map_of [(bodyStatus0, JObject [(''status'', JNumber ''0'')]),
                           (bodyStatus11, JObject [(''status'', JNumber ''11'')])]"

definition fixedEnv :: "response \<Rightarrow> env" where
  "fixedEnv res =
     \<lparr>Parse = sampleParser2, PrintTable = noPrintTable, UintOf = (\<lambda>neg t. 0),
      Format = (\<lambda>format a n. []), NewRequestError = (\<lambda>meth u. None),
      Transport = (\<lambda>log req. Final res), ReadError = (\<lambda>res. None)\<rparr>"

text \<open>A driver with the session \<open>s1\<close> open and the token \<open>c\<close>.\<close>

definition driverS1 :: "ctx \<Rightarrow> remoteWebDriver" where
  "driverS1 c = \<lparr>id' = ''s1'', executor = ''http://h'', capabilities = None, ctx = c,
                 haveQuit = False\<rparr>"

definition WindowHandles ::
  "env \<Rightarrow> world \<Rightarrow> remoteWebDriver \<Rightarrow> string list outcome \<times> remoteWebDriver \<times> world" where
  "WindowHandles E w wd = stringsCommand E w wd ''/session/%s/window_handles''"

definition Title ::
  "env \<Rightarrow> world \<Rightarrow> remoteWebDriver \<Rightarrow> string outcome \<times> remoteWebDriver \<times> world" where
  "Title E w wd = stringCommand E w wd ''/session/%s/title''"

text \<open>
  Reply bodies with the documents they spell: \<open>bodySession\<close> is
  \<^verbatim>\<open>{"sessionId":"s9","status":0}\<close>, \<open>bodyValue5\<close> is
  \<^verbatim>\<open>{"status":0,"value":5}\<close>, \<open>bodyElem\<close> is
  \<^verbatim>\<open>{"status":0,"value":{"ELEMENT":"e7"}}\<close>, and the cookie bodies carry one cookie
  named \<open>a\<close> with the expiry \<^verbatim>\<open>1700000000\<close>, \<^verbatim>\<open>9007199254740993\<close>,
  \<^verbatim>\<open>-0.5\<close> and \<^verbatim>\<open>true\<close>. \<open>jsonEnv body\<close> is an environment whose remote end answers every
  request with \<^verbatim>\<open>200 OK\<close>, the JSON content type and that body.
\<close>

definition bodyValue5 :: string where
  "bodyValue5 = ''{'' @ dq @ ''status'' @ dq @ '':0,'' @ dq @ ''value'' @ dq @ '':5}''"

definition bodyElem :: string where
  "bodyElem = ''{'' @ dq @ ''status'' @ dq @ '':0,'' @ dq @ ''value'' @ dq @ '':{''
              @ dq @ ''ELEMENT'' @ dq @ '':'' @ dq @ ''e7'' @ dq @ ''}}''"

definition cookieBody :: "string \<Rightarrow> string" where
  "cookieBody lit = ''{'' @ dq @ ''status'' @ dq @ '':0,'' @ dq @ ''value'' @ dq @ '':[{''
              @ dq @ ''name'' @ dq @ '':'' @ dq @ ''a'' @ dq @ '','' @ dq @ ''Expiry'' @ dq
              @ '':'' @ lit @ ''}]}''"

definition cookieDoc :: "json \<Rightarrow> json" where
  "cookieDoc e = JObject [(''status'', JNumber ''0''),
                   (''value'', JArray [JObject [(''name'', JString ''a''), (''Expiry'', e)]])]"

definition bodySession :: string where
  "bodySession = ''{'' @ dq @ ''sessionId'' @ dq @ '':'' @ dq @ ''s9'' @ dq @ '',''
                 @ dq @ ''status'' @ dq @ '':0}''"

definition bodyParser :: parser where
  "bodyParser = map_of
     [(bodySession, JObject [(''sessionId'', JString ''s9''), (''status'', JNumber ''0'')]),
      (bodyValue5, JObject [(''status'', JNumber ''0''), (''value'', JNumber ''5'')]),
      (bodyElem, JObject [(''status'', JNumber ''0''),
                          (''value'', JObject [(''ELEMENT'', JString ''e7'')])]),
      (cookieBody ''1700000000'', cookieDoc (JNumber ''1700000000'')),
      (cookieBody ''9007199254740993'', cookieDoc (JNumber ''9007199254740993'')),
      (cookieBody ''-0.5'', cookieDoc (JNumber ''-0.5'')),
      (cookieBody ''true'', cookieDoc (JBool True))]"

definition jsonEnv :: "string \<Rightarrow> env" where
  "jsonEnv body =
     \<lparr>Parse = bodyParser, PrintTable = noPrintTable, UintOf = (\<lambda>neg t. 0),
      Format = (\<lambda>format a n. []), NewRequestError = (\<lambda>meth u. None),
      Transport = (\<lambda>log req. Final \<lparr>StatusCode = 200, HttpStatus = ''200 OK'',
                    ContentType = ''application/json'', Body = body\<rparr>),
      ReadError = (\<lambda>res. None)\<rparr>"

definition driverNew :: remoteWebDriver where
  "driverNew = newDriver (Some (JObject [])) ''http://h''"

text \<open>
  The substitution as the specification words it: every element handle in the argument
  structure, at any depth, becomes its reference object.
\<close>

fun spec_rewrite :: "goval \<Rightarrow> goval"
and spec_rewriteList :: "goval list \<Rightarrow> goval list"
and spec_rewriteMembers :: "(string \<times> goval) list \<Rightarrow> (string \<times> goval) list" where
  "spec_rewrite (GRemoteWE (Some h)) = GElement \<lparr>Element = we_id h\<rparr>"
| "spec_rewrite (GSlice vs) = GSlice (spec_rewriteList vs)"
| "spec_rewrite (GMap kvs) = GMap (spec_rewriteMembers kvs)"
| "spec_rewrite GNil = GNil"
| "spec_rewrite (GBool b) = GBool b"
| "spec_rewrite (GNumber l) = GNumber l"
| "spec_rewrite (GString s) = GString s"
| "spec_rewrite GUnsupported = GUnsupported"
| "spec_rewrite (GRemoteWE None) = GRemoteWE None"
| "spec_rewrite (GElement e) = GElement e"
| "spec_rewriteList [] = []"
| "spec_rewriteList (v # vs) = spec_rewrite v # spec_rewriteList vs"
| "spec_rewriteMembers [] = []"
| "spec_rewriteMembers ((k, v) # kvs) = (k, spec_rewrite v) # spec_rewriteMembers kvs"

definition handleE1 :: goval where
  "handleE1 = GRemoteWE (Some \<lparr>we_id = ''e1''\<rparr>)"







text \<open>
  What the loop of \<^verbatim>\<open>parseCookieExpiry\<close> does to one cookie, given the literal of
  its expiry: the expiry is overwritten when \<^verbatim>\<open>Float64\<close> succeeds.
\<close>

definition patchOne :: "(bool \<Rightarrow> nat \<Rightarrow> nat) \<Rightarrow> Cookie \<Rightarrow> string \<Rightarrow> Cookie" where
  "patchOne impl c e = (case Float64_uint impl e of None \<Rightarrow> c | Some n \<Rightarrow> c\<lparr>Expiry := n\<rparr>)"

text \<open>
  The floor of the number a literal denotes, from its sign and fraction (the division
  of integers rounds down).
\<close>

definition spec_floor :: "bool \<Rightarrow> nat \<Rightarrow> nat \<Rightarrow> int" where
  "spec_floor neg num den = (if neg then - int num else int num) div int den"

section \<open>Verification\<close>

subsection \<open>Formatting and decoding lemmas\<close>

lemma DecodeRune_ascii: "b < 128 \<Longrightarrow> DecodeRune (b # bs) = (b, 1)"
  by (simp add: DecodeRune_def)

lemma appendEscapedRune_plain:
  "plainByte c \<Longrightarrow> appendEscapedRune tbl (of_char c) enc = enc"
  by (simp add: plainByte_def appendEscapedRune_def IsPrint_def)

lemma quoteLoop_plain: "list_all plainByte s \<Longrightarrow> quoteLoop tbl s = s"
proof (induction s)
  case Nil
  show ?case by simp
next
  case (Cons c cs)
  from Cons.prems have c: "plainByte c" and cs: "list_all plainByte cs" by simp_all
  from c have lt: "(of_char c :: nat) < 128" by (simp add: plainByte_def)
  have ne: "(of_char c :: nat) \<noteq> RuneError"
    using lt by (simp add: RuneError_def)
  show ?case
    using Cons.IH [OF cs] c lt ne
    by (simp add: DecodeRune_ascii appendEscapedRune_plain)
qed

lemma Quote_plain: "list_all plainByte s \<Longrightarrow> Quote tbl s = dq @ s @ dq"
  by (simp add: Quote_def dq_def quoteLoop_plain)

lemma backendError_recovered:
  assumes "unmarshal_replyValue (Value r) = (sr, True)" and "Message sr \<noteq> []"
    and "json_of_bytes P (Message sr) = Some d"
    and "unmarshal_stringStruct ''errorMessage'' d [] = (e, True)"
  shows "backendError P r = e"
  using assms by (simp add: backendError_def unmarshal_replyMessage_def)

lemma backendError_first_level_fails:
  "snd (unmarshal_replyValue (Value r)) = False \<Longrightarrow> backendError P r = []"
  by (cases "unmarshal_replyValue (Value r)") (simp add: backendError_def)

lemma backendError_no_message:
  "Message (fst (unmarshal_replyValue (Value r))) = [] \<Longrightarrow> backendError P r = []"
  by (cases "unmarshal_replyValue (Value r)")
     (auto simp: backendError_def split: bool.splits)

lemma backendError_message_not_json:
  "json_of_bytes P (Message (fst (unmarshal_replyValue (Value r)))) = None
   \<Longrightarrow> backendError P r = []"
  by (cases "unmarshal_replyValue (Value r)")
     (auto simp: backendError_def unmarshal_replyMessage_def split: bool.splits)

lemma backendError_second_level_fails:
  assumes "json_of_bytes P (Message (fst (unmarshal_replyValue (Value r)))) = Some d"
    and "snd (unmarshal_stringStruct ''errorMessage'' d []) = False"
  shows "backendError P r = []"
  using assms
  by (cases "unmarshal_replyValue (Value r)";
      cases "unmarshal_stringStruct ''errorMessage'' d []")
     (auto simp: backendError_def unmarshal_replyMessage_def split: bool.splits)

lemma classify_protocol_error:
  assumes "json_of_bytes (Parse E) (Body res) = Some j"
    and "unmarshal_reply j reply0 = (r, True)"
    and "400 \<le> StatusCode res
         \<or> (HasPrefix (ContentType res) jsonMIMEType \<and> Status r \<noteq> SUCCESS)"
  shows "classify E res = Fail (pE (Parse E) (PrintTable E) r)"
  using assms by (auto simp: classify_def)

subsection \<open>The text of a protocol error\<close>

text \<open>
  C3, as the code has it. The error made for a reply envelope has the text
  \<open>catalog message - quoted backend message\<close>, where the quoting is that of
  \<^verbatim>\<open>strconv.Quote\<close>: for a backend message of printable ASCII without double quote and
  backslash this is the text of the specification, the message between double quotes.
  The catalog message is the Error Catalog entry of the envelope's status, or
  \<open>unknown error - status\<close> for a status the catalog does not list. The backend
  message is the \<open>errorMessage\<close> found by decoding \<open>value\<close> as an object with a
  \<open>message\<close> and that message as an object with an \<open>errorMessage\<close>; when a level
  is absent (no value, no message) or fails (a member of the wrong type, a message that
  is not JSON) it is the empty string. Whatever these decodes do, a response that
  carries the envelope with an HTTP status of 400 or more, or as JSON with a status
  other than success, fails with this error.
\<close>

theorem pE_error_text:
  "pE (Parse E) (PrintTable E) r =
     ErrorString (catalogMessage (Status r) @ '' - ''
                  @ Quote (PrintTable E) (backendError (Parse E) r))
   \<and> (list_all plainByte (backendError (Parse E) r) \<longrightarrow>
        pE (Parse E) (PrintTable E) r =
          ErrorString (spec_errorText (catalogMessage (Status r))
                         (backendError (Parse E) r)))
   \<and> (\<forall>m. errorCodes (Status r) = Some m \<longrightarrow> catalogMessage (Status r) = m)
   \<and> (errorCodes (Status r) = None \<longrightarrow>
        catalogMessage (Status r) = ''unknown error - '' @ showInt (Status r))
   \<and> (\<forall>sr d e. unmarshal_replyValue (Value r) = (sr, True) \<and> Message sr \<noteq> []
          \<and> json_of_bytes (Parse E) (Message sr) = Some d
          \<and> unmarshal_stringStruct ''errorMessage'' d [] = (e, True)
        \<longrightarrow> backendError (Parse E) r = e)
   \<and> (Value r = None \<longrightarrow> backendError (Parse E) r = [])
   \<and> (snd (unmarshal_replyValue (Value r)) = False \<longrightarrow> backendError (Parse E) r = [])
   \<and> (Message (fst (unmarshal_replyValue (Value r))) = [] \<longrightarrow>
        backendError (Parse E) r = [])
   \<and> (json_of_bytes (Parse E) (Message (fst (unmarshal_replyValue (Value r)))) = None
        \<longrightarrow> backendError (Parse E) r = [])
   \<and> (\<forall>d. json_of_bytes (Parse E) (Message (fst (unmarshal_replyValue (Value r))))
              = Some d
          \<and> snd (unmarshal_stringStruct ''errorMessage'' d []) = False
        \<longrightarrow> backendError (Parse E) r = [])
   \<and> (\<forall>res j. json_of_bytes (Parse E) (Body res) = Some j
          \<and> unmarshal_reply j reply0 = (r, True)
          \<and> (400 \<le> StatusCode res
               \<or> (HasPrefix (ContentType res) jsonMIMEType \<and> Status r \<noteq> SUCCESS))
        \<longrightarrow> classify E res = Fail (pE (Parse E) (PrintTable E) r))"
proof -
  have txt0: "pE (Parse E) (PrintTable E) r =
     ErrorString (catalogMessage (Status r) @ '' - ''
                  @ Quote (PrintTable E) (backendError (Parse E) r))"
    by (simp add: pE_def)
  have plain: "list_all plainByte (backendError (Parse E) r) \<longrightarrow>
        pE (Parse E) (PrintTable E) r =
          ErrorString (spec_errorText (catalogMessage (Status r))
                         (backendError (Parse E) r))"
    by (simp add: pE_def Quote_plain spec_errorText_def dq_def)
  have known: "\<forall>m. errorCodes (Status r) = Some m \<longrightarrow> catalogMessage (Status r) = m"
    by (simp add: catalogMessage_def)
  have unknown: "errorCodes (Status r) = None \<longrightarrow>
        catalogMessage (Status r) = ''unknown error - '' @ showInt (Status r)"
    by (simp add: catalogMessage_def)
  have novalue: "Value r = None \<longrightarrow> backendError (Parse E) r = []"
    by (simp add: backendError_def unmarshal_replyValue_def)
  show ?thesis
    using txt0 plain known unknown novalue
      backendError_recovered [of r _ "Parse E"]
      backendError_first_level_fails [of r "Parse E"]
      backendError_no_message [of r "Parse E"]
      backendError_message_not_json [of "Parse E" r]
      backendError_second_level_fails [of "Parse E" r]
      classify_protocol_error [of E _ _ r]
    by blast
qed

lemmas sample_defs =
  sampleEnv_def sampleParser_def noPrintTable_def msgBoom_def msgQuoted_def docBoom_def
  docQuoted_def dq_def replyBoom_def replyQuoted_def replyUnknown_def world0_def

lemmas decode_defs =
  json_of_bytes_def backendError_def unmarshal_replyValue_def unmarshal_replyMessage_def
  unmarshal_stringStruct_def unmarshal_fieldStruct_def unmarshal_reply_def unmarshal_replyPtr_def isField_def
  reply0_def

lemma backendError_replyBoom: "backendError sampleParser replyBoom = ''boom''"
  by (simp add: sample_defs decode_defs)

lemma backendError_replyQuoted:
  "backendError sampleParser replyQuoted = [CHR ''a'', CHR 0x22, CHR ''b'']"
  by (simp add: sample_defs decode_defs)

lemma backendError_replyUnknown: "backendError sampleParser replyUnknown = []"
  by (simp add: sample_defs decode_defs)

theorem pE_error_text_witness:
  "list_all plainByte (backendError (Parse (sampleEnv noServer)) replyBoom)
   \<and> errorCodes (Status replyBoom) = Some ''element not visible''
   \<and> pE (Parse (sampleEnv noServer)) (PrintTable (sampleEnv noServer)) replyBoom =
       ErrorString (''element not visible - '' @ dq @ ''boom'' @ dq)
   \<and> errorCodes (Status replyUnknown) = None
   \<and> Value replyUnknown = None
   \<and> pE (Parse (sampleEnv noServer)) (PrintTable (sampleEnv noServer)) replyUnknown =
       ErrorString (''unknown error - 99 - '' @ dq @ dq)"
proof -
  have P: "Parse (sampleEnv noServer) = sampleParser"
    by (simp add: sampleEnv_def)
  have h1: "list_all plainByte (backendError (Parse (sampleEnv noServer)) replyBoom)"
    by (simp add: P backendError_replyBoom plainByte_def)
  have h2: "errorCodes (Status replyBoom) = Some ''element not visible''"
    by (simp add: replyBoom_def errorCodes_def)
  have h3: "errorCodes (Status replyUnknown) = None"
    by (simp add: replyUnknown_def errorCodes_def)
  have h4: "Value replyUnknown = None"
    by (simp add: replyUnknown_def)
  have s99: "showInt (Status replyUnknown) = ''99''"
    by (simp add: replyUnknown_def showInt_def showNat.simps decDigit_def)
  have k: "catalogMessage (Status replyBoom) = ''element not visible''"
    using pE_error_text [of "sampleEnv noServer" replyBoom] h2 by blast
  have "pE (Parse (sampleEnv noServer)) (PrintTable (sampleEnv noServer)) replyBoom =
          ErrorString (spec_errorText (catalogMessage (Status replyBoom))
                         (backendError (Parse (sampleEnv noServer)) replyBoom))"
    using pE_error_text [of "sampleEnv noServer" replyBoom] h1 by blast
  then have c1: "pE (Parse (sampleEnv noServer)) (PrintTable (sampleEnv noServer)) replyBoom =
       ErrorString (''element not visible - '' @ dq @ ''boom'' @ dq)"
    by (simp add: k P backendError_replyBoom spec_errorText_def dq_def)
  have u: "catalogMessage (Status replyUnknown) = ''unknown error - 99''"
    using pE_error_text [of "sampleEnv noServer" replyUnknown] h3 s99 by simp
  have b0: "backendError (Parse (sampleEnv noServer)) replyUnknown = []"
    using pE_error_text [of "sampleEnv noServer" replyUnknown] h4 by blast
  have "pE (Parse (sampleEnv noServer)) (PrintTable (sampleEnv noServer)) replyUnknown =
     ErrorString (catalogMessage (Status replyUnknown) @ '' - ''
                  @ Quote (PrintTable (sampleEnv noServer))
                      (backendError (Parse (sampleEnv noServer)) replyUnknown))"
    using pE_error_text [of "sampleEnv noServer" replyUnknown] by blast
  then have c2: "pE (Parse (sampleEnv noServer)) (PrintTable (sampleEnv noServer)) replyUnknown =
       ErrorString (''unknown error - 99 - '' @ dq @ dq)"
    by (simp add: u b0 Quote_def dq_def)
  from h1 h2 h3 h4 c1 c2 show ?thesis by blast
qed

text \<open>
  The claim as worded fails where the backend message holds a double quote: the text
  has the quote escaped by a backslash.
\<close>

theorem pE_quotes_backend_message:
  "backendError sampleParser replyQuoted = [CHR ''a'', CHR 0x22, CHR ''b'']
   \<and> pE sampleParser noPrintTable replyQuoted =
       ErrorString (''element not visible - ''
                    @ [CHR 0x22, CHR ''a'', CHR 0x5C, CHR 0x22, CHR ''b'', CHR 0x22])
   \<and> pE sampleParser noPrintTable replyQuoted \<noteq>
       ErrorString (spec_errorText (catalogMessage (Status replyQuoted))
                      (backendError sampleParser replyQuoted))"
proof -
  have c: "catalogMessage (Status replyQuoted) = ''element not visible''"
    by (simp add: replyQuoted_def catalogMessage_def errorCodes_def)
  have q: "Quote noPrintTable [CHR ''a'', CHR 0x22, CHR ''b'']
           = [CHR 0x22, CHR ''a'', CHR 0x5C, CHR 0x22, CHR ''b'', CHR 0x22]"
    by (simp add: Quote_def DecodeRune_def appendEscapedRune_def IsPrint_def RuneError_def)
  show ?thesis
    by (simp add: pE_def c q backendError_replyQuoted spec_errorText_def)
qed

subsection \<open>The executor and the teardown\<close>

lemma Done_mono: "Done w c \<Longrightarrow> clock w \<le> clock w' \<Longrightarrow> Done w' c"
  by (auto simp: Done_def split: ctx.splits)

lemma Done_Background [simp]: "\<not> Done w Background"
  by (simp add: Done_def)

lemma clock_roundTrip [simp]: "clock (roundTrip w req) = Suc (clock w)"
  by (simp add: roundTrip_def)

lemma issued_roundTrip [simp]: "issued (roundTrip w req) = issued w @ [req]"
  by (simp add: roundTrip_def)

lemma url_session: "url E wd ''/session/%s'' [x] = executor wd @ ''/session/'' @ x"
  by (simp add: url_def Sprintf_def)

lemma Do_Final: "rt req = Final res \<Longrightarrow> Do rt req = (Responded res, [req])"
  by (simp add: Do_def clientDo.simps [of rt "[]" req])

lemma fetch_Final:
  "Transport E log req = Final res \<Longrightarrow> ReadError E res = None \<Longrightarrow>
   fetch E log req = Responded res"
  by (simp add: fetch_def Do_Final)

lemma fetch_okServer:
  "fetch (sampleEnv okServer) log req
     = Responded \<lparr>StatusCode = 200, HttpStatus = ''200 OK'', ContentType = [], Body = []\<rparr>"
  by (rule fetch_Final) (simp_all add: sampleEnv_def okServer_def)

lemma fetch_fixedEnv: "fetch (fixedEnv res) log req = Responded res"
  by (rule fetch_Final) (simp_all add: fixedEnv_def)

lemma fetch_jsonEnv:
  "fetch (jsonEnv body) log req
     = Responded \<lparr>StatusCode = 200, HttpStatus = ''200 OK'',
                   ContentType = ''application/json'', Body = body\<rparr>"
  by (rule fetch_Final) (simp_all add: jsonEnv_def)

lemma okServer_transact:
  "transact (sampleEnv okServer) w meth u data = (Return [], roundTrip w (newRequest meth u data))"
proof -
  have "NewRequestError (sampleEnv okServer) meth u = None"
    by (simp add: sampleEnv_def)
  then show ?thesis
    by (simp add: transact_def fetch_okServer classify_def HasPrefix_def jsonMIMEType_def)
qed

lemma transact_clock: "clock w \<le> clock (snd (transact E w meth u data))"
  by (auto simp: transact_def split: option.splits http_result.splits)

lemma Quit_again: "haveQuit wd \<Longrightarrow> Quit E w wd = (Return (), wd, w)"
  by (simp add: Quit.simps)

lemma execute_Background:
  "ctx wd = Background \<Longrightarrow>
   execute E w wd meth u data =
     (fst (transact E w meth u data), wd, snd (transact E w meth u data))"
  by (simp add: execute.simps split: prod.splits)

lemma execute_live:
  assumes "\<not> Done (snd (transact E w meth u data)) (ctx wd)"
  shows "execute E w wd meth u data =
     (fst (transact E w meth u data), wd, snd (transact E w meth u data))"
proof -
  have "\<not> Done w (ctx wd)"
    using assms Done_mono [OF _ transact_clock] by blast
  then show ?thesis
    using assms by (cases "transact E w meth u data") (simp add: execute.simps)
qed

lemma Quit_first:
  assumes "\<not> haveQuit wd"
  shows "Quit E w wd =
     (case transact E w ''DELETE'' (executor wd @ ''/session/'' @ id' wd) None of
        (Return buf, w1) \<Rightarrow>
          (Return (), wd\<lparr>haveQuit := True, ctx := Background, id' := []\<rparr>, w1)
      | (Fail e, w1) \<Rightarrow> (Fail e, wd\<lparr>haveQuit := True, ctx := Background\<rparr>, w1)
      | (Panic p, w1) \<Rightarrow> (Panic p, wd\<lparr>haveQuit := True, ctx := Background\<rparr>, w1))"
  using assms
  by (simp add: Quit.simps [of E w wd] execute_Background url_session
           split: prod.splits outcome.splits)

lemma execute_fired_before:
  "Done w (ctx wd) \<Longrightarrow>
   execute E w wd meth u data = (Fail ErrCanceled, snd (Quit E w wd))"
  by (cases "Quit E w wd") (simp add: execute.simps)

lemma execute_fired_after:
  assumes "\<not> Done w (ctx wd)" and "Done (snd (transact E w meth u data)) (ctx wd)"
  shows "execute E w wd meth u data =
           (Fail ErrCanceled, snd (Quit E (snd (transact E w meth u data)) wd))"
  using assms
  by (cases "transact E w meth u data";
      cases "Quit E (snd (transact E w meth u data)) wd")
     (simp add: execute.simps)

lemma send_Fail:
  "execute E w wd meth u data = (Fail e, s) \<Longrightarrow> send E w wd meth u data = (Fail e, s)"
  by (cases s) (simp add: send_def)


subsection \<open>Responses with an HTTP status of 400 or more\<close>

lemma transact_responded:
  assumes "NewRequestError E meth u = None"
    and "fetch E (issued w) (newRequest meth u data) = Responded res"
  shows "transact E w meth u data = (classify E res, roundTrip w (newRequest meth u data))"
  using assms by (simp add: transact_def)

lemma classify_bad_status:
  assumes "400 \<le> StatusCode res"
  shows "json_of_bytes (Parse E) (Body res) = None
          \<or> (\<exists>j. json_of_bytes (Parse E) (Body res) = Some j
                  \<and> snd (unmarshal_reply j reply0) = False)
          \<Longrightarrow> classify E res
                = Fail (ErrorString (''Bad server reply status: '' @ HttpStatus res))"
    and "json_of_bytes (Parse E) (Body res) = Some j \<Longrightarrow> unmarshal_reply j reply0 = (r, True)
          \<Longrightarrow> classify E res
                = Fail (ErrorString (catalogMessage (Status r) @ '' - ''
                          @ Quote (PrintTable E) (backendError (Parse E) r)))"
  using assms by (auto simp: classify_def pE_def split: prod.splits)

lemma catalogMessage_cases:
  "errorCodes s = Some m \<Longrightarrow> catalogMessage s = m"
  "errorCodes s = None \<Longrightarrow> catalogMessage s = ''unknown error - '' @ showInt s"
  "catalogMessage SUCCESS = ''unknown error - 0''"
  "catalogMessage 11 = ''element not visible''"
  by (simp_all add: catalogMessage_def errorCodes_def SUCCESS_def showInt_def showNat.simps
        decDigit_def)

text \<open>
  C4, as the code has it. A command whose request is answered with an HTTP status of 400
  or more parses the body as a reply envelope. When the driver's token is not fired after
  the round trip: if the parse fails (the body is not JSON, or it does not fit the
  envelope) the command fails with \<open>Bad server reply status:\<close> followed by the HTTP status
  line; if it succeeds the command fails with the protocol error of the envelope, whose
  text is the catalog message of the envelope's status (the catalog entry, or
  \<open>unknown error -\<close> and the status when the catalog has none: \<open>unknown error - 0\<close> for
  the status of success, \<open>element not visible\<close> for 11), a dash and the quoted backend
  message; the driver is left as it was and the request is recorded. When the token fires
  during the round trip the command fails with \<^verbatim>\<open>ErrCanceled\<close> instead, whatever the
  body, and the driver has been quit.
\<close>

theorem bad_status_reply:
  assumes "NewRequestError E meth u = None"
    and "fetch E (issued w) (newRequest meth u data) = Responded res"
    and "400 \<le> StatusCode res"
  shows "(\<not> Done (roundTrip w (newRequest meth u data)) (ctx wd) \<longrightarrow>
            (json_of_bytes (Parse E) (Body res) = None
               \<or> (\<exists>j. json_of_bytes (Parse E) (Body res) = Some j
                       \<and> snd (unmarshal_reply j reply0) = False)
             \<longrightarrow> execute E w wd meth u data
                   = (Fail (ErrorString (''Bad server reply status: '' @ HttpStatus res)),
                      wd, roundTrip w (newRequest meth u data)))
          \<and> (\<forall>j r. json_of_bytes (Parse E) (Body res) = Some j
                    \<and> unmarshal_reply j reply0 = (r, True)
               \<longrightarrow> execute E w wd meth u data
                     = (Fail (ErrorString (catalogMessage (Status r) @ '' - ''
                               @ Quote (PrintTable E) (backendError (Parse E) r))),
                        wd, roundTrip w (newRequest meth u data))))
       \<and> (\<forall>s m. errorCodes s = Some m \<longrightarrow> catalogMessage s = m)
       \<and> (\<forall>s. errorCodes s = None \<longrightarrow> catalogMessage s = ''unknown error - '' @ showInt s)
       \<and> catalogMessage SUCCESS = ''unknown error - 0''
       \<and> catalogMessage 11 = ''element not visible''
       \<and> (\<not> Done w (ctx wd) \<and> Done (roundTrip w (newRequest meth u data)) (ctx wd) \<longrightarrow>
            execute E w wd meth u data
              = (Fail ErrCanceled, snd (Quit E (roundTrip w (newRequest meth u data)) wd)))"
proof -
  let ?w1 = "roundTrip w (newRequest meth u data)"
  have t: "transact E w meth u data = (classify E res, ?w1)"
    using assms(1,2) by (rule transact_responded)
  have x: "\<not> Done ?w1 (ctx wd) \<Longrightarrow> execute E w wd meth u data = (classify E res, wd, ?w1)"
    by (simp add: execute_live t)
  have bad: "\<not> Done ?w1 (ctx wd) \<longrightarrow>
            (json_of_bytes (Parse E) (Body res) = None
               \<or> (\<exists>j. json_of_bytes (Parse E) (Body res) = Some j
                       \<and> snd (unmarshal_reply j reply0) = False)
             \<longrightarrow> execute E w wd meth u data
                   = (Fail (ErrorString (''Bad server reply status: '' @ HttpStatus res)),
                      wd, ?w1))"
    using x classify_bad_status(1) [OF assms(3), of E] by simp
  have good: "\<not> Done ?w1 (ctx wd) \<longrightarrow>
          (\<forall>j r. json_of_bytes (Parse E) (Body res) = Some j
                    \<and> unmarshal_reply j reply0 = (r, True)
               \<longrightarrow> execute E w wd meth u data
                     = (Fail (ErrorString (catalogMessage (Status r) @ '' - ''
                               @ Quote (PrintTable E) (backendError (Parse E) r))),
                        wd, ?w1))"
    using x classify_bad_status(2) [OF assms(3), of E] by simp
  have late: "\<not> Done w (ctx wd) \<and> Done ?w1 (ctx wd) \<longrightarrow>
            execute E w wd meth u data = (Fail ErrCanceled, snd (Quit E ?w1 wd))"
    using execute_fired_after [of w wd E meth u data] by (simp add: t)
  have c1: "\<forall>s m. errorCodes s = Some m \<longrightarrow> catalogMessage s = m"
    by (simp add: catalogMessage_cases(1))
  have c2: "\<forall>s. errorCodes s = None \<longrightarrow> catalogMessage s = ''unknown error - '' @ showInt s"
    by (simp add: catalogMessage_cases(2))
  from bad good c1 c2 catalogMessage_cases(3) catalogMessage_cases(4) late
  show ?thesis by (intro conjI impI) blast+
qed

lemma fixedEnv_transact:
  "transact (fixedEnv res) w meth u data = (classify (fixedEnv res) res, roundTrip w (newRequest meth u data))"
proof (rule transact_responded)
  show "NewRequestError (fixedEnv res) meth u = None"
    by (simp add: fixedEnv_def)
  show "fetch (fixedEnv res) (issued w) (newRequest meth u data) = Responded res"
    by (rule fetch_fixedEnv)
qed

lemma doc_status:
  "unmarshal_reply (JObject [(''status'', JNumber ''0'')]) reply0 = (reply0, True)"
  "unmarshal_reply (JObject [(''status'', JNumber ''11'')]) reply0
     = (reply0\<lparr>Status := 11\<rparr>, True)"
  by (simp_all add: unmarshal_reply_def isField_def reply0_def ParseInt_def isDigit_def
        digitVal_def)

theorem bad_status_reply_witness:
  "execute (fixedEnv res500) world0 (driverS1 Background) ''GET''
          ''http://h/session/s1/title'' None
     = (Fail (ErrorString ''Bad server reply status: 500 Internal Server Error''),
        driverS1 Background,
        \<lparr>clock = 1, issued = [newRequest ''GET'' ''http://h/session/s1/title'' None]\<rparr>)
   \<and> execute (fixedEnv res404) world0 (driverS1 Background) ''GET''
          ''http://h/session/s1/title'' None
     = (Fail (ErrorString (''unknown error - 0 - '' @ dq @ dq)),
        driverS1 Background,
        \<lparr>clock = 1, issued = [newRequest ''GET'' ''http://h/session/s1/title'' None]\<rparr>)
   \<and> execute (fixedEnv res500s11) world0 (driverS1 Background) ''GET''
          ''http://h/session/s1/title'' None
     = (Fail (ErrorString (''element not visible - '' @ dq @ dq)),
        driverS1 Background,
        \<lparr>clock = 1, issued = [newRequest ''GET'' ''http://h/session/s1/title'' None]\<rparr>)"
proof -
  let ?u = "''http://h/session/s1/title''"
  let ?req = "newRequest ''GET'' ?u None"
  let ?w1 = "\<lparr>clock = 1, issued = [?req]\<rparr>"
  have w1: "roundTrip world0 ?req = ?w1"
    by (simp add: roundTrip_def world0_def)
  have live: "\<not> Done (roundTrip world0 ?req) (ctx (driverS1 Background))"
    by (simp add: driverS1_def)
  have n: "\<And>res. NewRequestError (fixedEnv res) ''GET'' ?u = None"
    by (simp add: fixedEnv_def)
  have f: "\<And>res. fetch (fixedEnv res) (issued world0) ?req = Responded res"
    by (simp add: fetch_fixedEnv)
  have P: "\<And>res. Parse (fixedEnv res) = sampleParser2"
    and T: "\<And>res. PrintTable (fixedEnv res) = noPrintTable"
    by (simp_all add: fixedEnv_def)
  have a3: "400 \<le> StatusCode res500"
    and a4: "json_of_bytes (Parse (fixedEnv res500)) (Body res500) = None"
    by (simp_all add: P res500_def json_of_bytes_def sampleParser2_def bodyStatus0_def
          bodyStatus11_def dq_def)
  have "execute (fixedEnv res500) world0 (driverS1 Background) ''GET'' ?u None
     = (Fail (ErrorString (''Bad server reply status: '' @ HttpStatus res500)),
        driverS1 Background, roundTrip world0 ?req)"
    using bad_status_reply [OF n f a3, of "driverS1 Background"] live a4 by blast
  then have c1: "execute (fixedEnv res500) world0 (driverS1 Background) ''GET'' ?u None
     = (Fail (ErrorString ''Bad server reply status: 500 Internal Server Error''),
        driverS1 Background, ?w1)"
    by (simp add: w1 res500_def)
  have b3: "400 \<le> StatusCode res404"
    and b4: "json_of_bytes (Parse (fixedEnv res404)) (Body res404)
             = Some (JObject [(''status'', JNumber ''0'')])"
    by (simp_all add: P res404_def json_of_bytes_def sampleParser2_def bodyStatus0_def
          bodyStatus11_def dq_def)
  have b7: "backendError sampleParser2 reply0 = []"
    by (simp add: backendError_def unmarshal_replyValue_def reply0_def)
  have s0: "Status reply0 = SUCCESS"
    by (simp add: reply0_def SUCCESS_def)
  have "execute (fixedEnv res404) world0 (driverS1 Background) ''GET'' ?u None
     = (Fail (ErrorString (catalogMessage (Status reply0) @ '' - ''
           @ Quote (PrintTable (fixedEnv res404)) (backendError (Parse (fixedEnv res404)) reply0))),
        driverS1 Background, roundTrip world0 ?req)"
    using bad_status_reply [OF n f b3, of "driverS1 Background"] live b4 doc_status(1) by blast
  moreover have "catalogMessage (Status reply0) = ''unknown error - 0''"
    using bad_status_reply [OF n f b3, of "driverS1 Background"] s0 by simp
  ultimately have c2: "execute (fixedEnv res404) world0 (driverS1 Background) ''GET'' ?u None
     = (Fail (ErrorString (''unknown error - 0 - '' @ dq @ dq)), driverS1 Background, ?w1)"
    by (simp add: w1 P T b7 Quote_def dq_def)
  have d3: "400 \<le> StatusCode res500s11"
    and d4: "json_of_bytes (Parse (fixedEnv res500s11)) (Body res500s11)
             = Some (JObject [(''status'', JNumber ''11'')])"
    by (simp_all add: P res500s11_def json_of_bytes_def sampleParser2_def bodyStatus0_def
          bodyStatus11_def dq_def)
  have d7: "backendError sampleParser2 (reply0\<lparr>Status := 11\<rparr>) = []"
    by (simp add: backendError_def unmarshal_replyValue_def reply0_def)
  have "execute (fixedEnv res500s11) world0 (driverS1 Background) ''GET'' ?u None
     = (Fail (ErrorString (catalogMessage (Status (reply0\<lparr>Status := 11\<rparr>)) @ '' - ''
           @ Quote (PrintTable (fixedEnv res500s11))
               (backendError (Parse (fixedEnv res500s11)) (reply0\<lparr>Status := 11\<rparr>)))),
        driverS1 Background, roundTrip world0 ?req)"
    using bad_status_reply [OF n f d3, of "driverS1 Background"] live d4 doc_status(2) by blast
  moreover have "catalogMessage 11 = ''element not visible''"
    using bad_status_reply [OF n f d3, of "driverS1 Background"] by blast
  ultimately have c3: "execute (fixedEnv res500s11) world0 (driverS1 Background) ''GET'' ?u None
     = (Fail (ErrorString (''element not visible - '' @ dq @ dq)), driverS1 Background, ?w1)"
    by (simp add: w1 P T d7 Quote_def dq_def)
  from c1 c2 c3 show ?thesis by blast
qed

text \<open>
  The claim as worded lets every response with a status of 400 or more end in one of its
  two errors. When the driver's token fires while the request is under way, the command
  ends in \<^verbatim>\<open>ErrCanceled\<close>: the remote end answers the \<^verbatim>\<open>GET\<close> with the \<^verbatim>\<open>500\<close> page,
  the deferred check finds the token fired, quits the driver (the DELETE is answered
  with the same page, so the id stays) and replaces the error.
\<close>

theorem late_cancellation_replaces_the_error:
  "fetch (fixedEnv res500) (issued world0) (newRequest ''GET'' ''http://h/session/s1/title'' None)
     = Responded res500
   \<and> 400 \<le> StatusCode res500
   \<and> \<not> Done world0 (ctx (driverS1 (FiresAt 1)))
   \<and> execute (fixedEnv res500) world0 (driverS1 (FiresAt 1)) ''GET''
          ''http://h/session/s1/title'' None
     = (Fail ErrCanceled, (driverS1 Background)\<lparr>haveQuit := True\<rparr>,
        \<lparr>clock = 2, issued = [newRequest ''GET'' ''http://h/session/s1/title'' None,
                               newRequest ''DELETE'' ''http://h/session/s1'' None]\<rparr>)"
proof -
  let ?E = "fixedEnv res500"
  let ?u = "''http://h/session/s1/title''"
  let ?req = "newRequest ''GET'' ?u None"
  let ?wd = "driverS1 (FiresAt 1)"
  let ?w1 = "\<lparr>clock = 1, issued = [?req]\<rparr>"
  have c: "classify ?E res500
           = Fail (ErrorString ''Bad server reply status: 500 Internal Server Error'')"
    by (simp add: classify_def fixedEnv_def res500_def json_of_bytes_def sampleParser2_def
          bodyStatus0_def bodyStatus11_def dq_def)
  have h0: "\<not> Done world0 (ctx ?wd)"
    by (simp add: Done_def driverS1_def world0_def)
  have t: "transact ?E world0 ''GET'' ?u None = (classify ?E res500, ?w1)"
    by (simp add: fixedEnv_transact roundTrip_def world0_def)
  have h1: "Done (snd (transact ?E world0 ''GET'' ?u None)) (ctx ?wd)"
    by (simp add: t Done_def driverS1_def)
  have q: "Quit ?E ?w1 ?wd
           = (Fail (ErrorString ''Bad server reply status: 500 Internal Server Error''),
              (driverS1 Background)\<lparr>haveQuit := True\<rparr>,
              \<lparr>clock = 2, issued = [?req, newRequest ''DELETE'' ''http://h/session/s1'' None]\<rparr>)"
    by (simp add: Quit_first fixedEnv_transact c driverS1_def roundTrip_def)
  have x: "execute ?E world0 ?wd ''GET'' ?u None
           = (Fail ErrCanceled, snd (Quit ?E (snd (transact ?E world0 ''GET'' ?u None)) ?wd))"
    using h0 h1 by (rule execute_fired_after)
  have y: "execute ?E world0 ?wd ''GET'' ?u None
     = (Fail ErrCanceled, (driverS1 Background)\<lparr>haveQuit := True\<rparr>,
        \<lparr>clock = 2, issued = [?req, newRequest ''DELETE'' ''http://h/session/s1'' None]\<rparr>)"
    using x by (simp only: t q snd_conv)
  have s: "400 \<le> StatusCode res500" by (simp add: res500_def)
  from fetch_fixedEnv [of res500 "issued world0" ?req] s h0 y show ?thesis by blast
qed

subsection \<open>The cancellation guard\<close>

lemma send_canceled:
  "execute E w wd meth u data = (Fail ErrCanceled, s) \<Longrightarrow>
   send E w wd meth u data = (Fail ErrCanceled, s)"
  by (rule send_Fail)

lemma newRequest_DELETE:
  "newRequest ''DELETE'' u None
     = \<lparr>Method = ''DELETE'', URL = u, Header = [(''Accept'', ''application/json'')],
        Data = None\<rparr>"
  by (simp add: newRequest_def jsonMIMEType_def)

lemma Quit_refused:
  assumes "\<not> haveQuit wd"
    and "NewRequestError E ''DELETE'' (executor wd @ ''/session/'' @ id' wd) = Some e"
  shows "Quit E w wd = (Fail (HttpError e), wd\<lparr>haveQuit := True, ctx := Background\<rparr>, w)"
  using assms by (simp add: Quit_first transact_def)

lemma Quit_sends:
  assumes "\<not> haveQuit wd"
    and "NewRequestError E ''DELETE'' (executor wd @ ''/session/'' @ id' wd) = None"
  shows "Quit E w wd =
     (case fetch E (issued w)
             \<lparr>Method = ''DELETE'', URL = executor wd @ ''/session/'' @ id' wd,
              Header = [(''Accept'', ''application/json'')], Data = None\<rparr> of
        DoFailed e \<Rightarrow>
          (Fail (HttpError e), wd\<lparr>haveQuit := True, ctx := Background\<rparr>,
           roundTrip w \<lparr>Method = ''DELETE'', URL = executor wd @ ''/session/'' @ id' wd,
                        Header = [(''Accept'', ''application/json'')], Data = None\<rparr>)
      | ReadFailed e \<Rightarrow>
          (Fail (HttpError e), wd\<lparr>haveQuit := True, ctx := Background\<rparr>,
           roundTrip w \<lparr>Method = ''DELETE'', URL = executor wd @ ''/session/'' @ id' wd,
                        Header = [(''Accept'', ''application/json'')], Data = None\<rparr>)
      | Responded res \<Rightarrow>
          (case classify E res of
             Return buf \<Rightarrow>
               (Return (), wd\<lparr>haveQuit := True, ctx := Background, id' := []\<rparr>,
                roundTrip w \<lparr>Method = ''DELETE'', URL = executor wd @ ''/session/'' @ id' wd,
                             Header = [(''Accept'', ''application/json'')], Data = None\<rparr>)
           | Fail e \<Rightarrow>
               (Fail e, wd\<lparr>haveQuit := True, ctx := Background\<rparr>,
                roundTrip w \<lparr>Method = ''DELETE'', URL = executor wd @ ''/session/'' @ id' wd,
                             Header = [(''Accept'', ''application/json'')], Data = None\<rparr>)
           | Panic p \<Rightarrow>
               (Panic p, wd\<lparr>haveQuit := True, ctx := Background\<rparr>,
                roundTrip w \<lparr>Method = ''DELETE'', URL = executor wd @ ''/session/'' @ id' wd,
                             Header = [(''Accept'', ''application/json'')], Data = None\<rparr>)))"
  using assms
  by (simp add: Quit_first transact_def newRequest_DELETE
           split: http_result.splits outcome.splits)

lemma NewSession_canceled:
  assumes "capabilities wd = Some caps"
  shows "Done w (ctx wd) \<Longrightarrow> NewSession E w wd = (Fail ErrCanceled, snd (Quit E w wd))"
    and "\<not> Done w (ctx wd) \<Longrightarrow>
         Done (snd (transact E w ''POST'' (executor wd @ ''/session'')
                      (Some (JObject [(''desiredCapabilities'', caps)])))) (ctx wd) \<Longrightarrow>
         NewSession E w wd
           = (Fail ErrCanceled,
              snd (Quit E (snd (transact E w ''POST'' (executor wd @ ''/session'')
                                  (Some (JObject [(''desiredCapabilities'', caps)])))) wd))"
proof -
  have u: "url E wd ''/session'' [] = executor wd @ ''/session''"
    by (simp add: url_def Sprintf_def)
  show "Done w (ctx wd) \<Longrightarrow> NewSession E w wd = (Fail ErrCanceled, snd (Quit E w wd))"
    using assms
    by (cases "Quit E w wd")
       (simp add: NewSession_def u send_canceled [OF execute_fired_before])
  show "\<not> Done w (ctx wd) \<Longrightarrow>
         Done (snd (transact E w ''POST'' (executor wd @ ''/session'')
                      (Some (JObject [(''desiredCapabilities'', caps)])))) (ctx wd) \<Longrightarrow>
         NewSession E w wd
           = (Fail ErrCanceled,
              snd (Quit E (snd (transact E w ''POST'' (executor wd @ ''/session'')
                                  (Some (JObject [(''desiredCapabilities'', caps)])))) wd))"
    using assms
    by (cases "Quit E (snd (transact E w ''POST'' (executor wd @ ''/session'')
                              (Some (JObject [(''desiredCapabilities'', caps)])))) wd")
       (simp add: NewSession_def u send_canceled [OF execute_fired_after])
qed

text \<open>
  C2, as the code has it. \<^verbatim>\<open>execute\<close> looks at the driver's token before the request
  is sent and again after the round trip. If the first look finds it fired, the command
  fails with \<^verbatim>\<open>ErrCanceled\<close> and \<^verbatim>\<open>Quit\<close> has run on the state before the request, so
  the command's own request never reached the network; if the second look finds it fired,
  the command fails with \<^verbatim>\<open>ErrCanceled\<close> and \<^verbatim>\<open>Quit\<close> has run on the state after the
  round trip; \<^verbatim>\<open>send\<close> returns the same error and the same state. If neither look
  finds it fired no quit happens. The \<^verbatim>\<open>Quit\<close> so triggered does nothing on a driver
  quit before. On a driver not quit before it marks the driver as quit, puts the
  background token in place of the caller's and, unless \<^verbatim>\<open>http.NewRequest\<close> refuses it,
  sends the request \<^verbatim>\<open>DELETE <executor>/session/<id>\<close> for the id the driver holds at
  that moment, with the \<^verbatim>\<open>Accept\<close> header and no body, whatever the caller's token;
  the id is reset when the request succeeds and kept when it fails. \<^verbatim>\<open>NewSession\<close>
  writes the new id only when \<^verbatim>\<open>send\<close> returns without an error: canceled, it fails
  with \<^verbatim>\<open>ErrCanceled\<close> and the quit has run on the driver with the id it held
  before.
\<close>

theorem cancellation_guard:
  "(Done w (ctx wd) \<longrightarrow>
      execute E w wd meth u data = (Fail ErrCanceled, snd (Quit E w wd))
      \<and> send E w wd meth u data = (Fail ErrCanceled, snd (Quit E w wd)))
   \<and> (\<not> Done w (ctx wd) \<and> Done (snd (transact E w meth u data)) (ctx wd) \<longrightarrow>
      execute E w wd meth u data
        = (Fail ErrCanceled, snd (Quit E (snd (transact E w meth u data)) wd))
      \<and> send E w wd meth u data
        = (Fail ErrCanceled, snd (Quit E (snd (transact E w meth u data)) wd)))
   \<and> (\<not> Done (snd (transact E w meth u data)) (ctx wd) \<longrightarrow>
      execute E w wd meth u data
        = (fst (transact E w meth u data), wd, snd (transact E w meth u data)))
   \<and> (NewRequestError E meth u = None \<longrightarrow>
      snd (transact E w meth u data) = roundTrip w (newRequest meth u data))
   \<and> (capabilities wd = Some caps \<and> Done w (ctx wd) \<longrightarrow>
      NewSession E w wd = (Fail ErrCanceled, snd (Quit E w wd)))
   \<and> (capabilities wd = Some caps \<and> \<not> Done w (ctx wd)
        \<and> Done (snd (transact E w ''POST'' (executor wd @ ''/session'')
                      (Some (JObject [(''desiredCapabilities'', caps)])))) (ctx wd) \<longrightarrow>
      NewSession E w wd
        = (Fail ErrCanceled,
           snd (Quit E (snd (transact E w ''POST'' (executor wd @ ''/session'')
                               (Some (JObject [(''desiredCapabilities'', caps)])))) wd)))
   \<and> (haveQuit wd \<longrightarrow> Quit E w' wd = (Return (), wd, w'))
   \<and> (\<forall>e. \<not> haveQuit wd
          \<and> NewRequestError E ''DELETE'' (executor wd @ ''/session/'' @ id' wd) = Some e \<longrightarrow>
        Quit E w' wd = (Fail (HttpError e), wd\<lparr>haveQuit := True, ctx := Background\<rparr>, w'))
   \<and> (\<not> haveQuit wd
        \<and> NewRequestError E ''DELETE'' (executor wd @ ''/session/'' @ id' wd) = None \<longrightarrow>
      Quit E w' wd =
        (case fetch E (issued w')
                \<lparr>Method = ''DELETE'', URL = executor wd @ ''/session/'' @ id' wd,
                 Header = [(''Accept'', ''application/json'')], Data = None\<rparr> of
           DoFailed e \<Rightarrow>
             (Fail (HttpError e), wd\<lparr>haveQuit := True, ctx := Background\<rparr>,
              roundTrip w' \<lparr>Method = ''DELETE'', URL = executor wd @ ''/session/'' @ id' wd,
                            Header = [(''Accept'', ''application/json'')], Data = None\<rparr>)
         | ReadFailed e \<Rightarrow>
             (Fail (HttpError e), wd\<lparr>haveQuit := True, ctx := Background\<rparr>,
              roundTrip w' \<lparr>Method = ''DELETE'', URL = executor wd @ ''/session/'' @ id' wd,
                            Header = [(''Accept'', ''application/json'')], Data = None\<rparr>)
         | Responded res \<Rightarrow>
             (case classify E res of
                Return buf \<Rightarrow>
                  (Return (), wd\<lparr>haveQuit := True, ctx := Background, id' := []\<rparr>,
                   roundTrip w' \<lparr>Method = ''DELETE'', URL = executor wd @ ''/session/'' @ id' wd,
                                 Header = [(''Accept'', ''application/json'')], Data = None\<rparr>)
              | Fail e \<Rightarrow>
                  (Fail e, wd\<lparr>haveQuit := True, ctx := Background\<rparr>,
                   roundTrip w' \<lparr>Method = ''DELETE'', URL = executor wd @ ''/session/'' @ id' wd,
                                 Header = [(''Accept'', ''application/json'')], Data = None\<rparr>)
              | Panic p \<Rightarrow>
                  (Panic p, wd\<lparr>haveQuit := True, ctx := Background\<rparr>,
                   roundTrip w' \<lparr>Method = ''DELETE'', URL = executor wd @ ''/session/'' @ id' wd,
                                 Header = [(''Accept'', ''application/json'')], Data = None\<rparr>))))"
proof -
  have before: "Done w (ctx wd) \<longrightarrow>
      execute E w wd meth u data = (Fail ErrCanceled, snd (Quit E w wd))
      \<and> send E w wd meth u data = (Fail ErrCanceled, snd (Quit E w wd))"
    by (simp add: execute_fired_before send_canceled)
  have after: "\<not> Done w (ctx wd) \<and> Done (snd (transact E w meth u data)) (ctx wd) \<longrightarrow>
      execute E w wd meth u data
        = (Fail ErrCanceled, snd (Quit E (snd (transact E w meth u data)) wd))
      \<and> send E w wd meth u data
        = (Fail ErrCanceled, snd (Quit E (snd (transact E w meth u data)) wd))"
    by (simp add: execute_fired_after send_canceled)
  have live: "\<not> Done (snd (transact E w meth u data)) (ctx wd) \<longrightarrow>
      execute E w wd meth u data
        = (fst (transact E w meth u data), wd, snd (transact E w meth u data))"
    by (simp add: execute_live)
  have sent: "NewRequestError E meth u = None \<longrightarrow>
      snd (transact E w meth u data) = roundTrip w (newRequest meth u data)"
    by (simp add: transact_def split: http_result.splits)
  have new1: "capabilities wd = Some caps \<and> Done w (ctx wd) \<longrightarrow>
      NewSession E w wd = (Fail ErrCanceled, snd (Quit E w wd))"
    using NewSession_canceled(1) [of wd caps w E] by blast
  have new2: "capabilities wd = Some caps \<and> \<not> Done w (ctx wd)
        \<and> Done (snd (transact E w ''POST'' (executor wd @ ''/session'')
                      (Some (JObject [(''desiredCapabilities'', caps)])))) (ctx wd) \<longrightarrow>
      NewSession E w wd
        = (Fail ErrCanceled,
           snd (Quit E (snd (transact E w ''POST'' (executor wd @ ''/session'')
                               (Some (JObject [(''desiredCapabilities'', caps)])))) wd))"
    using NewSession_canceled(2) [of wd caps w E] by blast
  have again: "haveQuit wd \<longrightarrow> Quit E w' wd = (Return (), wd, w')"
    by (simp add: Quit_again)
  have refused: "\<forall>e. \<not> haveQuit wd
          \<and> NewRequestError E ''DELETE'' (executor wd @ ''/session/'' @ id' wd) = Some e \<longrightarrow>
        Quit E w' wd = (Fail (HttpError e), wd\<lparr>haveQuit := True, ctx := Background\<rparr>, w')"
    by (simp add: Quit_refused)
  show ?thesis
    by (intro conjI before after live sent new1 new2 again refused impI Quit_sends) simp_all
qed

lemma world1: "roundTrip world0 req = \<lparr>clock = 1, issued = [req]\<rparr>"
  by (simp add: roundTrip_def world0_def)

lemma world2: "roundTrip \<lparr>clock = 1, issued = [req]\<rparr> req' = \<lparr>clock = 2, issued = [req, req']\<rparr>"
  by (simp add: roundTrip_def)

lemma classify_empty_ok:
  "classify E \<lparr>StatusCode = 200, HttpStatus = ''200 OK'', ContentType = [], Body = []\<rparr>
     = Return []"
  by (simp add: classify_def HasPrefix_def jsonMIMEType_def)

theorem cancellation_guard_witness:
  "Done world0 (ctx (driverS1 (FiresAt 0)))
   \<and> send (sampleEnv okServer) world0 (driverS1 (FiresAt 0)) ''GET''
        ''http://h/session/s1/title'' None
     = (Fail ErrCanceled,
        (driverS1 Background)\<lparr>haveQuit := True, id' := []\<rparr>,
        \<lparr>clock = 1, issued = [\<lparr>Method = ''DELETE'', URL = ''http://h/session/s1'',
                                Header = [(''Accept'', ''application/json'')], Data = None\<rparr>]\<rparr>)
   \<and> \<not> Done world0 (ctx (driverS1 (FiresAt 1)))
   \<and> send (sampleEnv okServer) world0 (driverS1 (FiresAt 1)) ''GET''
        ''http://h/session/s1/title'' None
     = (Fail ErrCanceled,
        (driverS1 Background)\<lparr>haveQuit := True, id' := []\<rparr>,
        \<lparr>clock = 2, issued = [newRequest ''GET'' ''http://h/session/s1/title'' None,
                               \<lparr>Method = ''DELETE'', URL = ''http://h/session/s1'',
                                Header = [(''Accept'', ''application/json'')], Data = None\<rparr>]\<rparr>)
   \<and> send (sampleEnv okServer) world0 ((driverS1 (FiresAt 0))\<lparr>haveQuit := True\<rparr>) ''GET''
        ''http://h/session/s1/title'' None
     = (Fail ErrCanceled, (driverS1 (FiresAt 0))\<lparr>haveQuit := True\<rparr>, world0)"
proof -
  let ?E = "sampleEnv okServer"
  let ?u = "''http://h/session/s1/title''"
  let ?del = "\<lparr>Method = ''DELETE'', URL = ''http://h/session/s1'',
               Header = [(''Accept'', ''application/json'')], Data = None\<rparr>"
  let ?wq = "(driverS1 Background)\<lparr>haveQuit := True, id' := []\<rparr>"
  have n: "\<And>m v. NewRequestError ?E m v = None"
    by (simp add: sampleEnv_def)
  have nq: "\<And>c. \<not> haveQuit (driverS1 c)"
    and ex: "\<And>c. executor (driverS1 c) @ ''/session/'' @ id' (driverS1 c) = ''http://h/session/s1''"
    and wq: "\<And>c. (driverS1 c)\<lparr>haveQuit := True, ctx := Background, id' := []\<rparr> = ?wq"
    by (simp_all add: driverS1_def)
  have q: "\<And>c w'. Quit ?E w' (driverS1 c) = (Return (), ?wq, roundTrip w' ?del)"
  proof -
    fix c w'
    have "Quit ?E w' (driverS1 c) =
        (case fetch ?E (issued w')
                \<lparr>Method = ''DELETE'', URL = executor (driverS1 c) @ ''/session/'' @ id' (driverS1 c),
                 Header = [(''Accept'', ''application/json'')], Data = None\<rparr> of
           DoFailed e \<Rightarrow>
             (Fail (HttpError e), (driverS1 c)\<lparr>haveQuit := True, ctx := Background\<rparr>,
              roundTrip w' \<lparr>Method = ''DELETE'',
                            URL = executor (driverS1 c) @ ''/session/'' @ id' (driverS1 c),
                            Header = [(''Accept'', ''application/json'')], Data = None\<rparr>)
         | ReadFailed e \<Rightarrow>
             (Fail (HttpError e), (driverS1 c)\<lparr>haveQuit := True, ctx := Background\<rparr>,
              roundTrip w' \<lparr>Method = ''DELETE'',
                            URL = executor (driverS1 c) @ ''/session/'' @ id' (driverS1 c),
                            Header = [(''Accept'', ''application/json'')], Data = None\<rparr>)
         | Responded res \<Rightarrow>
             (case classify ?E res of
                Return buf \<Rightarrow>
                  (Return (), (driverS1 c)\<lparr>haveQuit := True, ctx := Background, id' := []\<rparr>,
                   roundTrip w' \<lparr>Method = ''DELETE'',
                                 URL = executor (driverS1 c) @ ''/session/'' @ id' (driverS1 c),
                                 Header = [(''Accept'', ''application/json'')], Data = None\<rparr>)
              | Fail e \<Rightarrow>
                  (Fail e, (driverS1 c)\<lparr>haveQuit := True, ctx := Background\<rparr>,
                   roundTrip w' \<lparr>Method = ''DELETE'',
                                 URL = executor (driverS1 c) @ ''/session/'' @ id' (driverS1 c),
                                 Header = [(''Accept'', ''application/json'')], Data = None\<rparr>)
              | Panic p \<Rightarrow>
                  (Panic p, (driverS1 c)\<lparr>haveQuit := True, ctx := Background\<rparr>,
                   roundTrip w' \<lparr>Method = ''DELETE'',
                                 URL = executor (driverS1 c) @ ''/session/'' @ id' (driverS1 c),
                                 Header = [(''Accept'', ''application/json'')], Data = None\<rparr>)))"
      using cancellation_guard [where wd = "driverS1 c" and E = ?E and w' = w'] nq [of c] n
      by blast
    then show "Quit ?E w' (driverS1 c) = (Return (), ?wq, roundTrip w' ?del)"
      by (simp only: ex fetch_okServer http_result.case classify_empty_ok outcome.case wq)
  qed
  have h0: "Done world0 (ctx (driverS1 (FiresAt 0)))"
    by (simp add: Done_def driverS1_def world0_def)
  have "send ?E world0 (driverS1 (FiresAt 0)) ''GET'' ?u None
     = (Fail ErrCanceled, snd (Quit ?E world0 (driverS1 (FiresAt 0))))"
    using cancellation_guard [of world0 "driverS1 (FiresAt 0)" ?E "''GET''" ?u None] h0
    by blast
  then have d0: "send ?E world0 (driverS1 (FiresAt 0)) ''GET'' ?u None
     = (Fail ErrCanceled, ?wq, \<lparr>clock = 1, issued = [?del]\<rparr>)"
    by (simp only: q snd_conv world1)
  have h1: "\<not> Done world0 (ctx (driverS1 (FiresAt 1)))"
    by (simp add: Done_def driverS1_def world0_def)
  have t1: "snd (transact ?E world0 ''GET'' ?u None)
            = \<lparr>clock = 1, issued = [newRequest ''GET'' ?u None]\<rparr>"
    using cancellation_guard [of world0 _ ?E "''GET''" ?u None] n
    by (simp only: world1)
  have h2: "Done (snd (transact ?E world0 ''GET'' ?u None)) (ctx (driverS1 (FiresAt 1)))"
    by (simp add: t1 Done_def driverS1_def)
  have "send ?E world0 (driverS1 (FiresAt 1)) ''GET'' ?u None
     = (Fail ErrCanceled, snd (Quit ?E (snd (transact ?E world0 ''GET'' ?u None))
                                 (driverS1 (FiresAt 1))))"
    using cancellation_guard [of world0 "driverS1 (FiresAt 1)" ?E "''GET''" ?u None] h1 h2
    by blast
  then have d1: "send ?E world0 (driverS1 (FiresAt 1)) ''GET'' ?u None
     = (Fail ErrCanceled, ?wq,
        \<lparr>clock = 2, issued = [newRequest ''GET'' ?u None, ?del]\<rparr>)"
    by (simp only: t1 q snd_conv world2)
  let ?wd2 = "(driverS1 (FiresAt 0))\<lparr>haveQuit := True\<rparr>"
  have h3: "Done world0 (ctx ?wd2)"
    by (simp add: Done_def driverS1_def world0_def)
  have q2: "Quit ?E world0 ?wd2 = (Return (), ?wd2, world0)"
    using cancellation_guard [where wd = ?wd2 and E = ?E and w' = world0] by simp
  have "send ?E world0 ?wd2 ''GET'' ?u None = (Fail ErrCanceled, snd (Quit ?E world0 ?wd2))"
    using cancellation_guard [of world0 ?wd2 ?E "''GET''" ?u None] h3 by blast
  then have d2: "send ?E world0 ?wd2 ''GET'' ?u None = (Fail ErrCanceled, ?wd2, world0)"
    by (simp only: q2 snd_conv)
  from h0 h1 d0 d1 d2 show ?thesis by blast
qed

text \<open>
  The claim as worded concludes that the remote session is not leaked. The quit deletes
  the session whose id the driver holds, and a session opened by the command that is
  canceled is not that one. \<^verbatim>\<open>NewSession\<close> on a driver that holds the session \<open>s1\<close>,
  with a token that fires while the request is under way: the remote end opens the
  session \<open>s9\<close>, the command fails with \<^verbatim>\<open>ErrCanceled\<close>, the quit sends the DELETE of
  \<open>s1\<close>, and no request names \<open>s9\<close>. On a driver struct that holds no id the DELETE
  goes to \<^verbatim>\<open>/session/\<close>.
\<close>

theorem canceled_NewSession_leaves_the_new_session_open:
  "fetch (jsonEnv bodySession) [] (newRequest ''POST'' ''http://h/session''
       (Some (JObject [(''desiredCapabilities'', JObject [])])))
     = Responded \<lparr>StatusCode = 200, HttpStatus = ''200 OK'',
                   ContentType = ''application/json'', Body = bodySession\<rparr>
   \<and> bodyParser bodySession
     = Some (JObject [(''sessionId'', JString ''s9''), (''status'', JNumber ''0'')])
   \<and> NewSession (jsonEnv bodySession) world0
        ((driverS1 (FiresAt 1))\<lparr>capabilities := Some (JObject [])\<rparr>)
     = (Fail ErrCanceled,
        (driverS1 Background)\<lparr>capabilities := Some (JObject []), haveQuit := True, id' := []\<rparr>,
        \<lparr>clock = 2,
         issued = [newRequest ''POST'' ''http://h/session''
                     (Some (JObject [(''desiredCapabilities'', JObject [])])),
                   \<lparr>Method = ''DELETE'', URL = ''http://h/session/s1'',
                    Header = [(''Accept'', ''application/json'')], Data = None\<rparr>]\<rparr>)
   \<and> NewSession (jsonEnv bodySession) world0 (SetContext driverNew (FiresAt 1))
     = (Fail ErrCanceled, driverNew\<lparr>haveQuit := True\<rparr>,
        \<lparr>clock = 2,
         issued = [newRequest ''POST'' ''http://h/session''
                     (Some (JObject [(''desiredCapabilities'', JObject [])])),
                   \<lparr>Method = ''DELETE'', URL = ''http://h/session/'',
                    Header = [(''Accept'', ''application/json'')], Data = None\<rparr>]\<rparr>)"
proof -
  let ?E = "jsonEnv bodySession"
  let ?d = "Some (JObject [(''desiredCapabilities'', JObject [])])"
  let ?post = "newRequest ''POST'' ''http://h/session'' ?d"
  let ?w1 = "\<lparr>clock = 1, issued = [?post]\<rparr>"
  have n: "\<And>m v. NewRequestError ?E m v = None"
    by (simp add: jsonEnv_def)
  have p: "bodyParser bodySession
     = Some (JObject [(''sessionId'', JString ''s9''), (''status'', JNumber ''0'')])"
    by (simp add: bodyParser_def)
  have r: "unmarshal_reply (JObject [(''sessionId'', JString ''s9''), (''status'', JNumber ''0'')])
             reply0 = (\<lparr>SessionId = ''s9'', Status = 0, Value = None\<rparr>, True)"
    by (simp add: unmarshal_reply_def isField_def reply0_def ParseInt_def isDigit_def
          digitVal_def)
  have ne: "bodySession \<noteq> []" by (simp add: bodySession_def)
  have c: "classify ?E \<lparr>StatusCode = 200, HttpStatus = ''200 OK'',
                   ContentType = ''application/json'', Body = bodySession\<rparr> = Return bodySession"
    using ne by (simp add: classify_def HasPrefix_def jsonMIMEType_def json_of_bytes_def
          jsonEnv_def p r SUCCESS_def)
  have t: "\<And>w meth u data. transact ?E w meth u data
             = (Return bodySession, roundTrip w (newRequest meth u data))"
    using n by (simp add: transact_def fetch_jsonEnv c)
  have main: "\<And>wd. capabilities wd = Some (JObject []) \<Longrightarrow> ctx wd = FiresAt 1
       \<Longrightarrow> \<not> haveQuit wd \<Longrightarrow> executor wd = ''http://h''
       \<Longrightarrow> NewSession ?E world0 wd
         = (Fail ErrCanceled, wd\<lparr>haveQuit := True, ctx := Background, id' := []\<rparr>,
            \<lparr>clock = 2, issued = [?post, newRequest ''DELETE'' (''http://h/session/'' @ id' wd) None]\<rparr>)"
  proof -
    fix wd :: remoteWebDriver
    assume caps: "capabilities wd = Some (JObject [])" and tok: "ctx wd = FiresAt 1"
      and nq: "\<not> haveQuit wd" and ex: "executor wd = ''http://h''"
    have u: "url ?E wd ''/session'' [] = ''http://h/session''"
      by (simp add: url_def Sprintf_def ex)
    have h0: "\<not> Done world0 (ctx wd)"
      by (simp add: tok Done_def world0_def)
    have h1: "Done (snd (transact ?E world0 ''POST'' ''http://h/session'' ?d)) (ctx wd)"
      by (simp add: t tok Done_def)
    have q: "Quit ?E ?w1 wd
             = (Return (), wd\<lparr>haveQuit := True, ctx := Background, id' := []\<rparr>,
                \<lparr>clock = 2, issued = [?post, newRequest ''DELETE'' (''http://h/session/'' @ id' wd) None]\<rparr>)"
      using nq by (simp add: Quit_first t ex world2)
    have x: "execute ?E world0 wd ''POST'' ''http://h/session'' ?d
             = (Fail ErrCanceled, snd (Quit ?E (snd (transact ?E world0 ''POST'' ''http://h/session'' ?d)) wd))"
      using h0 h1 by (rule execute_fired_after)
    have y: "execute ?E world0 wd ''POST'' ''http://h/session'' ?d
             = (Fail ErrCanceled, wd\<lparr>haveQuit := True, ctx := Background, id' := []\<rparr>,
                \<lparr>clock = 2, issued = [?post, newRequest ''DELETE'' (''http://h/session/'' @ id' wd) None]\<rparr>)"
      using x by (simp only: t q snd_conv world1)
    show "NewSession ?E world0 wd
         = (Fail ErrCanceled, wd\<lparr>haveQuit := True, ctx := Background, id' := []\<rparr>,
            \<lparr>clock = 2, issued = [?post, newRequest ''DELETE'' (''http://h/session/'' @ id' wd) None]\<rparr>)"
      by (simp add: NewSession_def caps u send_Fail [OF y])
  qed
  have a: "NewSession ?E world0 ((driverS1 (FiresAt 1))\<lparr>capabilities := Some (JObject [])\<rparr>)
     = (Fail ErrCanceled,
        (driverS1 Background)\<lparr>capabilities := Some (JObject []), haveQuit := True, id' := []\<rparr>,
        \<lparr>clock = 2, issued = [?post, \<lparr>Method = ''DELETE'', URL = ''http://h/session/s1'',
                    Header = [(''Accept'', ''application/json'')], Data = None\<rparr>]\<rparr>)"
    using main [of "(driverS1 (FiresAt 1))\<lparr>capabilities := Some (JObject [])\<rparr>"]
    by (simp add: driverS1_def newRequest_DELETE)
  have b: "NewSession ?E world0 (SetContext driverNew (FiresAt 1))
     = (Fail ErrCanceled, driverNew\<lparr>haveQuit := True\<rparr>,
        \<lparr>clock = 2, issued = [?post, \<lparr>Method = ''DELETE'', URL = ''http://h/session/'',
                    Header = [(''Accept'', ''application/json'')], Data = None\<rparr>]\<rparr>)"
    using main [of "SetContext driverNew (FiresAt 1)"]
    by (simp add: SetContext_def driverNew_def newDriver_def newRequest_DELETE)
  from fetch_jsonEnv [of bodySession "[]" ?post] p a b show ?thesis by blast
qed

subsection \<open>Quitting twice\<close>

text \<open>
  C1. Once \<^verbatim>\<open>Quit\<close> has run on a driver struct, another \<^verbatim>\<open>Quit\<close> on it is a
  no-op that returns success and issues nothing (lemma \<open>Quit_again\<close>). The bound of one
  session-delete request per driver does not follow: \<^verbatim>\<open>stringsCommand\<close>, alone among
  the command helpers, has a value receiver, so the quit that a fired token triggers
  inside \<^verbatim>\<open>WindowHandles\<close> marks a copy. On a driver with the session \<open>s1\<close> and a
  fired token, \<^verbatim>\<open>WindowHandles\<close> fails with \<^verbatim>\<open>ErrCanceled\<close>, has issued the DELETE
  of \<open>s1\<close> and leaves the driver not marked as quit; the \<^verbatim>\<open>Quit\<close> that follows
  issues the same DELETE a second time.
\<close>

theorem WindowHandles_then_Quit_deletes_twice:
  "WindowHandles (sampleEnv okServer) world0 (driverS1 (FiresAt 0))
     = (Fail ErrCanceled, driverS1 (FiresAt 0),
        \<lparr>clock = 1, issued = [sessionDelete (driverS1 (FiresAt 0))]\<rparr>)
   \<and> issued (snd (snd (Quit (sampleEnv okServer)
        \<lparr>clock = 1, issued = [sessionDelete (driverS1 (FiresAt 0))]\<rparr>
        (driverS1 (FiresAt 0)))))
     = [sessionDelete (driverS1 (FiresAt 0)), sessionDelete (driverS1 (FiresAt 0))]
   \<and> sessionDelete (driverS1 (FiresAt 0))
     = \<lparr>Method = ''DELETE'', URL = ''http://h/session/s1'',
        Header = [(''Accept'', ''application/json'')], Data = None\<rparr>"
proof -
  let ?E = "sampleEnv okServer"
  let ?wd = "driverS1 (FiresAt 0)"
  have h0: "Done world0 (ctx ?wd)"
    by (simp add: Done_def driverS1_def world0_def)
  have q0: "Quit ?E world0 ?wd
            = (Return (), (driverS1 Background)\<lparr>haveQuit := True, id' := []\<rparr>,
               \<lparr>clock = 1, issued = [sessionDelete ?wd]\<rparr>)"
    by (simp add: Quit_first okServer_transact driverS1_def world0_def roundTrip_def
          sessionDelete_def)
  have x: "execute ?E world0 ?wd ''GET'' (url ?E ?wd ''/session/%s/window_handles'' [id' ?wd])
             None
           = (Fail ErrCanceled, (driverS1 Background)\<lparr>haveQuit := True, id' := []\<rparr>,
               \<lparr>clock = 1, issued = [sessionDelete ?wd]\<rparr>)"
    using h0 by (simp add: execute_fired_before q0)
  have a: "WindowHandles ?E world0 ?wd
     = (Fail ErrCanceled, ?wd, \<lparr>clock = 1, issued = [sessionDelete ?wd]\<rparr>)"
    by (simp add: WindowHandles_def stringsCommand_def send_def x)
  have b: "issued (snd (snd (Quit ?E \<lparr>clock = 1, issued = [sessionDelete ?wd]\<rparr> ?wd)))
     = [sessionDelete ?wd, sessionDelete ?wd]"
    by (simp add: Quit_first okServer_transact driverS1_def roundTrip_def sessionDelete_def)
  have c: "sessionDelete ?wd
     = \<lparr>Method = ''DELETE'', URL = ''http://h/session/s1'',
        Header = [(''Accept'', ''application/json'')], Data = None\<rparr>"
    by (simp add: sessionDelete_def newRequest_def driverS1_def jsonMIMEType_def)
  from a b c show ?thesis by blast
qed

subsection \<open>Replies without a body\<close>

lemma send_nil_reply:
  assumes "NewRequestError E meth u = None"
    and "fetch E (issued w) (newRequest meth u data) = Responded res"
    and "StatusCode res < 400" and "Body res = []"
    and "\<not> HasPrefix (ContentType res) jsonMIMEType"
    and "\<not> Done (roundTrip w (newRequest meth u data)) (ctx wd)"
  shows "send E w wd meth u data = (Return None, wd, roundTrip w (newRequest meth u data))"
proof -
  have c: "classify E res = Return []"
    using assms(3,4,5) by (simp add: classify_def)
  have "execute E w wd meth u data = (Return [], wd, roundTrip w (newRequest meth u data))"
    using assms(6) by (simp add: execute_live transact_responded [OF assms(1,2)] c)
  then show ?thesis by (simp add: send_def)
qed

lemma readValue_nil: "readValue None dec = Panic NilDereference"
  by (simp add: readValue_def)

lemma nil_reply_consumers:
  assumes "send E w wd ''GET'' (url E wd t [id' wd]) None = (Return None, wd', w')"
  shows "stringCommand E w wd t = (Panic NilDereference, wd', w')"
    and "boolCommand E w wd t = (Panic NilDereference, wd', w')"
    and "stringsCommand E w wd t = (Panic NilDereference, wd, w')"
  using assms
  by (simp_all add: stringCommand_def boolCommand_def stringsCommand_def readValue_nil)

lemma nil_reply_NewSession:
  assumes "capabilities wd = Some caps"
    and "send E w wd ''POST'' (url E wd ''/session'' [])
           (Some (JObject [(''desiredCapabilities'', caps)])) = (Return None, wd', w')"
  shows "NewSession E w wd = (Panic NilDereference, wd', w')"
  using assms by (simp add: NewSession_def)

text \<open>
  C10, as the code has it. When a request is answered with an HTTP status below 400,
  an empty body and a content type that does not begin with \<^verbatim>\<open>application/json\<close>
  (the driver's token not fired), \<^verbatim>\<open>send\<close> returns a nil reply and a nil error.
  Every helper that then reads the reply panics on the nil pointer instead of returning
  an error: \<^verbatim>\<open>stringCommand\<close>, \<^verbatim>\<open>boolCommand\<close> and \<^verbatim>\<open>stringsCommand\<close> in
  \<^verbatim>\<open>readValue\<close>, and \<^verbatim>\<open>NewSession\<close> when it reads \<^verbatim>\<open>SessionId\<close>.
\<close>

theorem nil_reply_panics:
  "(NewRequestError E meth u = None
      \<and> fetch E (issued w) (newRequest meth u data) = Responded res
      \<and> StatusCode res < 400 \<and> Body res = []
      \<and> \<not> HasPrefix (ContentType res) jsonMIMEType
      \<and> \<not> Done (roundTrip w (newRequest meth u data)) (ctx wd)
    \<longrightarrow> send E w wd meth u data = (Return None, wd, roundTrip w (newRequest meth u data)))
   \<and> (send E w wd ''GET'' (url E wd t [id' wd]) None = (Return None, wd', w')
    \<longrightarrow> stringCommand E w wd t = (Panic NilDereference, wd', w')
        \<and> boolCommand E w wd t = (Panic NilDereference, wd', w')
        \<and> stringsCommand E w wd t = (Panic NilDereference, wd, w'))
   \<and> (capabilities wd = Some caps
      \<and> send E w wd ''POST'' (url E wd ''/session'' [])
           (Some (JObject [(''desiredCapabilities'', caps)])) = (Return None, wd', w')
    \<longrightarrow> NewSession E w wd = (Panic NilDereference, wd', w'))"
  using send_nil_reply [of E meth u w data res wd] nil_reply_consumers [of E w wd t wd' w']
    nil_reply_NewSession [of wd caps E w wd' w']
  by blast

theorem nil_reply_panics_witness:
  "send (sampleEnv okServer) world0 (driverS1 Background) ''GET''
      (url (sampleEnv okServer) (driverS1 Background) ''/session/%s/title''
         [id' (driverS1 Background)]) None
     = (Return None, driverS1 Background,
        roundTrip world0 (newRequest ''GET'' ''http://h/session/s1/title'' None))
   \<and> Title (sampleEnv okServer) world0 (driverS1 Background)
     = (Panic NilDereference, driverS1 Background,
        roundTrip world0 (newRequest ''GET'' ''http://h/session/s1/title'' None))
   \<and> capabilities driverNew = Some (JObject [])
   \<and> fst (NewSession (sampleEnv okServer) world0 driverNew) = Panic NilDereference"
proof -
  let ?E = "sampleEnv okServer"
  let ?wd = "driverS1 Background"
  let ?u = "url ?E ?wd ''/session/%s/title'' [id' ?wd]"
  have u: "?u = ''http://h/session/s1/title''"
    by (simp add: url_def Sprintf_def driverS1_def)
  have s: "send ?E world0 ?wd ''GET'' ?u None
           = (Return None, ?wd, roundTrip world0 (newRequest ''GET'' ?u None))"
  proof -
    have "NewRequestError ?E ''GET'' ?u = None
      \<and> fetch ?E (issued world0) (newRequest ''GET'' ?u None)
          = Responded \<lparr>StatusCode = 200, HttpStatus = ''200 OK'', ContentType = [],
                       Body = []\<rparr>
      \<and> StatusCode \<lparr>StatusCode = 200, HttpStatus = ''200 OK'', ContentType = [],
                       Body = []\<rparr> < 400
      \<and> Body \<lparr>StatusCode = 200, HttpStatus = ''200 OK'', ContentType = [], Body = []\<rparr> = []
      \<and> \<not> HasPrefix (ContentType \<lparr>StatusCode = 200, HttpStatus = ''200 OK'',
                        ContentType = [], Body = []\<rparr>) jsonMIMEType
      \<and> \<not> Done (roundTrip world0 (newRequest ''GET'' ?u None)) (ctx ?wd)"
      using fetch_okServer [of "issued world0" "newRequest ''GET'' ?u None"]
      by (simp add: sampleEnv_def HasPrefix_def jsonMIMEType_def driverS1_def)
    then show ?thesis
      using nil_reply_panics [of ?E "''GET''" ?u world0 None _ ?wd] by blast
  qed
  have t: "Title ?E world0 ?wd
           = (Panic NilDereference, ?wd, roundTrip world0 (newRequest ''GET'' ?u None))"
    using nil_reply_panics [of ?E _ _ world0 _ _ ?wd "''/session/%s/title''" ?wd
            "roundTrip world0 (newRequest ''GET'' ?u None)"] s
    unfolding Title_def by blast
  have caps: "capabilities driverNew = Some (JObject [])"
    by (simp add: driverNew_def newDriver_def)
  let ?d = "Some (JObject [(''desiredCapabilities'', JObject [])])"
  let ?v = "url ?E driverNew ''/session'' []"
  have "execute ?E world0 driverNew ''POST'' ?v ?d
        = (Return [], driverNew, roundTrip world0 (newRequest ''POST'' ?v ?d))"
    by (simp add: execute_Background okServer_transact driverNew_def newDriver_def)
  then have s2: "send ?E world0 driverNew ''POST'' ?v ?d
        = (Return None, driverNew, roundTrip world0 (newRequest ''POST'' ?v ?d))"
    by (simp add: send_def)
  have n: "fst (NewSession ?E world0 driverNew) = Panic NilDereference"
    using nil_reply_panics [of ?E _ _ world0 _ _ driverNew _ driverNew
            "roundTrip world0 (newRequest ''POST'' ?v ?d)" "JObject []"] caps s2
    by simp
  from s t caps n show ?thesis unfolding u by blast
qed

text \<open>
  With the JSON content type the empty body is not an empty success: \<^verbatim>\<open>execute\<close>
  fails to parse it, and the caller gets an error, not a panic.
\<close>

theorem empty_json_body_is_an_error:
  "send (jsonEnv []) world0 (driverS1 Background) ''GET'' ''http://h/session/s1/title'' None
     = (Fail JsonError, driverS1 Background,
        roundTrip world0 (newRequest ''GET'' ''http://h/session/s1/title'' None))
   \<and> Title (jsonEnv []) world0 (driverS1 Background)
     = (Fail JsonError, driverS1 Background,
        roundTrip world0 (newRequest ''GET'' ''http://h/session/s1/title'' None))"
proof -
  let ?u = "''http://h/session/s1/title''"
  have n: "NewRequestError (jsonEnv []) ''GET'' ?u = None"
    by (simp add: jsonEnv_def)
  have t: "transact (jsonEnv []) world0 ''GET'' ?u None
           = (Fail JsonError, roundTrip world0 (newRequest ''GET'' ?u None))"
    by (simp add: transact_def n fetch_jsonEnv classify_def HasPrefix_def jsonMIMEType_def
          json_of_bytes_def)
  have x: "execute (jsonEnv []) world0 (driverS1 Background) ''GET'' ?u None
           = (Fail JsonError, driverS1 Background,
              roundTrip world0 (newRequest ''GET'' ?u None))"
    by (simp add: execute_Background driverS1_def t)
  have s: "send (jsonEnv []) world0 (driverS1 Background) ''GET'' ?u None
     = (Fail JsonError, driverS1 Background, roundTrip world0 (newRequest ''GET'' ?u None))"
    by (simp add: send_def x)
  have u: "url (jsonEnv []) (driverS1 Background) ''/session/%s/title''
             [id' (driverS1 Background)] = ?u"
    by (simp add: url_def Sprintf_def driverS1_def)
  show ?thesis
    by (simp add: s Title_def stringCommand_def u)
qed


subsection \<open>Element replies that do not decode\<close>











lemma jsonEnv_transact:
  assumes "bodyParser body = Some j" and "body \<noteq> []"
    and "unmarshal_reply j reply0 = (r, True)" and "Status r = 0"
  shows "transact (jsonEnv body) w meth u data
         = (Return body, roundTrip w (newRequest meth u data))"
proof -
  have n: "NewRequestError (jsonEnv body) meth u = None"
    and P: "Parse (jsonEnv body) = bodyParser"
    by (simp_all add: jsonEnv_def)
  show ?thesis
    using assms
    by (simp add: transact_def n P fetch_jsonEnv classify_def HasPrefix_def jsonMIMEType_def
          json_of_bytes_def SUCCESS_def)
qed

lemma jsonEnv_send:
  assumes "bodyParser body = Some j" and "body \<noteq> []"
    and "unmarshal_reply j reply0 = (r, True)" and "Status r = 0"
    and "ctx wd = Background" and "j \<noteq> JNull"
  shows "send (jsonEnv body) w wd meth u data
         = (Return (Some r), wd, roundTrip w (newRequest meth u data))"
proof -
  have p: "unmarshal_replyPtr j = (Some r, True)"
    using assms(3,6) by (cases j) (simp_all add: unmarshal_replyPtr_def)
  have P: "Parse (jsonEnv body) = bodyParser"
    by (simp add: jsonEnv_def)
  show ?thesis
    using assms(1,2,5)
    by (simp add: send_def execute_Background jsonEnv_transact [OF assms(1-4)] P
          json_of_bytes_def p)
qed

lemma bodyValue5_doc:
  "bodyParser bodyValue5
   = Some (JObject [(''status'', JNumber ''0''), (''value'', JNumber ''5'')])"
  by (simp add: bodyParser_def bodyValue5_def bodySession_def dq_def)

lemma bodyValue5_reply:
  "unmarshal_reply (JObject [(''status'', JNumber ''0''), (''value'', JNumber ''5'')]) reply0
   = (\<lparr>SessionId = [], Status = 0, Value = Some (JNumber ''5'')\<rparr>, True)"
  by (simp add: unmarshal_reply_def isField_def reply0_def ParseInt_def isDigit_def
        digitVal_def)






subsection \<open>Script arguments\<close>

lemma rewriteArg_cases:
  "rewriteArg a = Some a' \<Longrightarrow>
   (\<forall>h. a = GRemoteWE (Some h) \<longrightarrow> a' = GElement \<lparr>Element = we_id h\<rparr>)
   \<and> ((\<forall>h. a \<noteq> GRemoteWE h) \<longrightarrow> a' = a)"
  by (cases a rule: rewriteArg.cases) auto

lemma rewriteArgs_length: "rewriteArgs args = Some args' \<Longrightarrow> length args' = length args"
  by (induction args arbitrary: args') (auto split: option.splits)

lemma rewriteArgs_nth:
  "rewriteArgs args = Some args' \<Longrightarrow> i < length args \<Longrightarrow>
   rewriteArg (args ! i) = Some (args' ! i)"
proof (induction args arbitrary: args' i)
  case Nil
  then show ?case by simp
next
  case (Cons a as)
  then show ?case
    by (cases i) (auto split: option.splits)
qed

lemma rewriteArgs_pointwise:
  assumes "rewriteArgs args = Some args'"
  shows "length args' = length args
     \<and> (\<forall>i<length args.
          (\<forall>h. args ! i = GRemoteWE (Some h)
               \<longrightarrow> args' ! i = GElement \<lparr>Element = we_id h\<rparr>)
          \<and> ((\<forall>h. args ! i \<noteq> GRemoteWE h) \<longrightarrow> args' ! i = args ! i))"
  using rewriteArgs_length [OF assms] rewriteArgs_nth [OF assms] rewriteArg_cases
  by blast

lemma execScript_sends:
  assumes "rewriteArgs (case args0 of None \<Rightarrow> [] | Some as \<Rightarrow> as) = Some args'"
    and "MarshalList args' = Some js"
  shows "execScript E w wd script args0 suffix
     = (case send E w wd ''POST'' (url E wd (''/session/%s/execute'' @ suffix) [id' wd])
              (Some (JObject [(''args'', JArray js), (''script'', JString script)])) of
          (Return r, wd', w') \<Rightarrow> (readValue r decAny, wd', w')
        | (Fail e, wd', w') \<Rightarrow> (Fail e, wd', w')
        | (Panic p, wd', w') \<Rightarrow> (Panic p, wd', w'))"
  using assms by (simp add: execScript_def scriptParams_def)

text \<open>
  C6, as the code has it. Before the arguments of a script execution are marshaled,
  every argument of the list that is an element handle is replaced by its reference
  object, which is marshaled as \<open>{ELEMENT: id}\<close>, and every other argument of the list
  stays as it is; the request body holds the marshaled list under \<open>args\<close> beside the
  script. The replacement looks at the arguments of the list only: a slice or a map
  among them stays as it is, handles inside it included, and a handle that was not
  replaced is marshaled as the empty object.
\<close>

theorem script_arguments_rewritten:
  "(rewriteArgs args = Some args' \<longrightarrow>
      length args' = length args
      \<and> (\<forall>i<length args.
            (\<forall>h. args ! i = GRemoteWE (Some h)
                 \<longrightarrow> args' ! i = GElement \<lparr>Element = we_id h\<rparr>)
            \<and> ((\<forall>h. args ! i \<noteq> GRemoteWE h) \<longrightarrow> args' ! i = args ! i)))
   \<and> Marshal (GElement \<lparr>Element = i0\<rparr>) = Some (JObject [(''ELEMENT'', JString i0)])
   \<and> (rewriteArgs (case args0 of None \<Rightarrow> [] | Some as \<Rightarrow> as) = Some args'
       \<and> MarshalList args' = Some js \<longrightarrow>
      execScript E w wd script args0 suffix
      = (case send E w wd ''POST'' (url E wd (''/session/%s/execute'' @ suffix) [id' wd])
              (Some (JObject [(''args'', JArray js), (''script'', JString script)])) of
          (Return r, wd', w') \<Rightarrow> (readValue r decAny, wd', w')
        | (Fail e, wd', w') \<Rightarrow> (Fail e, wd', w')
        | (Panic p, wd', w') \<Rightarrow> (Panic p, wd', w')))
   \<and> rewriteArg (GSlice vs) = Some (GSlice vs)
   \<and> rewriteArg (GMap kvs) = Some (GMap kvs)
   \<and> Marshal (GRemoteWE (Some h0)) = Some (JObject [])"
  using rewriteArgs_pointwise [of args args'] execScript_sends [of args0 args' js E w wd script suffix]
  by simp

lemma bodyValue5_send:
  "send (jsonEnv bodyValue5) w (driverS1 Background) meth u data
   = (Return (Some \<lparr>SessionId = [], Status = 0, Value = Some (JNumber ''5'')\<rparr>),
      driverS1 Background, roundTrip w (newRequest meth u data))"
proof -
  have ne: "bodyValue5 \<noteq> []" by (simp add: bodyValue5_def)
  have bg: "ctx (driverS1 Background) = Background" by (simp add: driverS1_def)
  show ?thesis
    using jsonEnv_send [OF bodyValue5_doc ne bodyValue5_reply _ bg] by simp
qed

theorem script_arguments_rewritten_witness:
  "rewriteArgs [handleE1, GNumber ''2''] = Some [GElement \<lparr>Element = ''e1''\<rparr>, GNumber ''2'']
   \<and> MarshalList [GElement \<lparr>Element = ''e1''\<rparr>, GNumber ''2'']
       = Some [JObject [(''ELEMENT'', JString ''e1'')], JNumber ''2'']
   \<and> ExecuteScript (jsonEnv bodyValue5) world0 (driverS1 Background) ''return 1''
        (Some [handleE1, GNumber ''2''])
     = (Return (JNumber ''5''), driverS1 Background,
        roundTrip world0
          (newRequest ''POST'' ''http://h/session/s1/execute''
             (Some (JObject [(''args'', JArray [JObject [(''ELEMENT'', JString ''e1'')],
                                                 JNumber ''2'']),
                             (''script'', JString ''return 1'')]))))"
proof -
  let ?args' = "[GElement \<lparr>Element = ''e1''\<rparr>, GNumber ''2'']"
  let ?js = "[JObject [(''ELEMENT'', JString ''e1'')], JNumber ''2'']"
  let ?wd = "driverS1 Background"
  have a: "rewriteArgs (case Some [handleE1, GNumber ''2''] of None \<Rightarrow> [] | Some as \<Rightarrow> as)
           = Some ?args'"
    by (simp add: handleE1_def)
  have b: "MarshalList ?args' = Some ?js" by simp
  have u: "url (jsonEnv bodyValue5) ?wd (''/session/%s/execute'' @ []) [id' ?wd] = ''http://h/session/s1/execute''"
    by (simp add: url_def Sprintf_def driverS1_def)
  have "execScript (jsonEnv bodyValue5) world0 ?wd ''return 1''
          (Some [handleE1, GNumber ''2'']) []
      = (case send (jsonEnv bodyValue5) world0 ?wd ''POST''
               (url (jsonEnv bodyValue5) ?wd (''/session/%s/execute'' @ []) [id' ?wd])
               (Some (JObject [(''args'', JArray ?js), (''script'', JString ''return 1'')])) of
          (Return r, wd', w') \<Rightarrow> (readValue r decAny, wd', w')
        | (Fail e, wd', w') \<Rightarrow> (Fail e, wd', w')
        | (Panic p, wd', w') \<Rightarrow> (Panic p, wd', w'))"
    using script_arguments_rewritten
            [of _ ?args' _ "Some [handleE1, GNumber ''2'']" ?js "jsonEnv bodyValue5" world0
                ?wd "''return 1''" "[]"] a b
    by blast
  then have c: "ExecuteScript (jsonEnv bodyValue5) world0 ?wd ''return 1''
        (Some [handleE1, GNumber ''2''])
     = (Return (JNumber ''5''), ?wd,
        roundTrip world0
          (newRequest ''POST'' ''http://h/session/s1/execute''
             (Some (JObject [(''args'', JArray ?js), (''script'', JString ''return 1'')]))))"
    unfolding ExecuteScript_def u
    by (simp add: bodyValue5_send readValue_def decAny_def)
  from a b c show ?thesis by simp
qed

text \<open>
  The claim as worded asks for the replacement at every depth. A handle inside a slice
  argument is not replaced, and the request carries \<open>[[{}]]\<close> as its arguments.
\<close>

theorem nested_handle_is_not_rewritten:
  "rewriteArgs [GSlice [handleE1]] = Some [GSlice [handleE1]]
   \<and> spec_rewriteList [GSlice [handleE1]] = [GSlice [GElement \<lparr>Element = ''e1''\<rparr>]]
   \<and> rewriteArgs [GSlice [handleE1]] \<noteq> Some (spec_rewriteList [GSlice [handleE1]])
   \<and> issued (snd (snd (ExecuteScript (jsonEnv bodyValue5) world0 (driverS1 Background)
        ''return 1'' (Some [GSlice [handleE1]]))))
     = [newRequest ''POST'' ''http://h/session/s1/execute''
          (Some (JObject [(''args'', JArray [JArray [JObject []]]),
                          (''script'', JString ''return 1'')]))]"
proof -
  let ?wd = "driverS1 Background"
  have u: "url (jsonEnv bodyValue5) ?wd ''/session/%s/execute'' [id' ?wd] = ''http://h/session/s1/execute''"
    by (simp add: url_def Sprintf_def driverS1_def)
  have a: "rewriteArgs [GSlice [handleE1]] = Some [GSlice [handleE1]]" by simp
  have b: "spec_rewriteList [GSlice [handleE1]] = [GSlice [GElement \<lparr>Element = ''e1''\<rparr>]]"
    by (simp add: handleE1_def)
  have c: "rewriteArgs [GSlice [handleE1]] \<noteq> Some (spec_rewriteList [GSlice [handleE1]])"
    by (simp add: handleE1_def)
  have d: "issued (snd (snd (ExecuteScript (jsonEnv bodyValue5) world0 ?wd
        ''return 1'' (Some [GSlice [handleE1]]))))
     = [newRequest ''POST'' ''http://h/session/s1/execute''
          (Some (JObject [(''args'', JArray [JArray [JObject []]]),
                          (''script'', JString ''return 1'')]))]"
    by (simp add: ExecuteScript_def execScript_def scriptParams_def handleE1_def u
          bodyValue5_send world0_def)
  from a b c d show ?thesis by blast
qed


subsection \<open>Redirects\<close>




















subsection \<open>The session id\<close>

text \<open>
  C5. The id is not fixed between creation and teardown by \<^verbatim>\<open>NewSession\<close> and \<^verbatim>\<open>Quit\<close>
  alone, and it is not empty after every successful teardown. A command that finds the
  driver's token fired quits the driver, and that quit resets the id when its DELETE
  succeeds: on a driver with the session \<open>s1\<close> and a fired token, \<^verbatim>\<open>Title\<close> fails with
  \<^verbatim>\<open>ErrCanceled\<close> and leaves the driver marked as quit with the empty id.
  \<^verbatim>\<open>WindowHandles\<close> on the same driver goes through \<^verbatim>\<open>stringsCommand\<close>, which has a
  value receiver: the same DELETE is sent and answered with \<^verbatim>\<open>200 OK\<close>, the quit
  returns success and resets the id of the copy, and the caller's driver still holds
  the id \<open>s1\<close> of the session that is gone, and is not marked as quit.
\<close>

theorem canceled_WindowHandles_keeps_the_id_of_the_deleted_session:
  "GetSessionID (driverS1 (FiresAt 0)) = ''s1''
   \<and> Done world0 (ctx (driverS1 (FiresAt 0)))
   \<and> WindowHandles (sampleEnv okServer) world0 (driverS1 (FiresAt 0))
     = (Fail ErrCanceled, driverS1 (FiresAt 0),
        \<lparr>clock = 1, issued = [\<lparr>Method = ''DELETE'', URL = ''http://h/session/s1'',
                                Header = [(''Accept'', ''application/json'')], Data = None\<rparr>]\<rparr>)
   \<and> fetch (sampleEnv okServer) []
        \<lparr>Method = ''DELETE'', URL = ''http://h/session/s1'',
         Header = [(''Accept'', ''application/json'')], Data = None\<rparr>
     = Responded \<lparr>StatusCode = 200, HttpStatus = ''200 OK'', ContentType = [], Body = []\<rparr>
   \<and> Quit (sampleEnv okServer) world0 (driverS1 (FiresAt 0))
     = (Return (), (driverS1 Background)\<lparr>haveQuit := True, id' := []\<rparr>,
        \<lparr>clock = 1, issued = [\<lparr>Method = ''DELETE'', URL = ''http://h/session/s1'',
                                Header = [(''Accept'', ''application/json'')], Data = None\<rparr>]\<rparr>)
   \<and> GetSessionID (fst (snd (WindowHandles (sampleEnv okServer) world0 (driverS1 (FiresAt 0)))))
     = ''s1''
   \<and> \<not> haveQuit (fst (snd (WindowHandles (sampleEnv okServer) world0 (driverS1 (FiresAt 0)))))
   \<and> Title (sampleEnv okServer) world0 (driverS1 (FiresAt 0))
     = (Fail ErrCanceled, (driverS1 Background)\<lparr>haveQuit := True, id' := []\<rparr>,
        \<lparr>clock = 1, issued = [\<lparr>Method = ''DELETE'', URL = ''http://h/session/s1'',
                                Header = [(''Accept'', ''application/json'')], Data = None\<rparr>]\<rparr>)"
proof -
  let ?E = "sampleEnv okServer"
  let ?wd = "driverS1 (FiresAt 0)"
  let ?del = "\<lparr>Method = ''DELETE'', URL = ''http://h/session/s1'',
               Header = [(''Accept'', ''application/json'')], Data = None\<rparr>"
  let ?wq = "(driverS1 Background)\<lparr>haveQuit := True, id' := []\<rparr>"
  have g: "GetSessionID ?wd = ''s1''"
    by (simp add: GetSessionID_def driverS1_def)
  have nq: "\<not> haveQuit ?wd"
    by (simp add: driverS1_def)
  have h0: "Done world0 (ctx ?wd)"
    by (simp add: Done_def driverS1_def world0_def)
  have q: "Quit ?E world0 ?wd = (Return (), ?wq, \<lparr>clock = 1, issued = [?del]\<rparr>)"
    by (simp add: Quit_first okServer_transact driverS1_def world1 newRequest_DELETE)
  have x: "\<And>meth u data. execute ?E world0 ?wd meth u data
             = (Fail ErrCanceled, ?wq, \<lparr>clock = 1, issued = [?del]\<rparr>)"
    using h0 by (simp add: execute_fired_before q)
  have wh: "WindowHandles ?E world0 ?wd
     = (Fail ErrCanceled, ?wd, \<lparr>clock = 1, issued = [?del]\<rparr>)"
    by (simp add: WindowHandles_def stringsCommand_def send_def x)
  have ti: "Title ?E world0 ?wd
     = (Fail ErrCanceled, ?wq, \<lparr>clock = 1, issued = [?del]\<rparr>)"
    by (simp add: Title_def stringCommand_def send_def x)
  have g': "GetSessionID (fst (snd (WindowHandles ?E world0 ?wd))) = ''s1''"
    by (simp add: wh g)
  have nq': "\<not> haveQuit (fst (snd (WindowHandles ?E world0 ?wd)))"
    by (simp add: wh nq)
  from g h0 wh fetch_okServer [of "[]" ?del] q g' nq' ti show ?thesis by blast
qed


subsection \<open>The expiry of a cookie\<close>

lemma decAll_length: "decAll f js = Some xs \<Longrightarrow> length xs = length js"
  by (induction js arbitrary: xs) (auto split: option.splits)

lemma decSlice_same_length:
  assumes "decSlice f raw = Some xs" and "decSlice g raw = Some ys"
  shows "length xs = length ys"
proof (cases raw)
  case None
  with assms show ?thesis by (simp add: decSlice_def)
next
  case (Some j)
  show ?thesis
  proof (cases j)
    case (JArray js)
    with assms Some have "decAll f js = Some xs" and "decAll g js = Some ys"
      by (simp_all add: decSlice_def)
    then show ?thesis using decAll_length by metis
  qed (use assms Some in \<open>simp_all add: decSlice_def\<close>)
qed

lemma patchExpiry_map2:
  "length cs \<le> length es \<Longrightarrow> patchExpiry impl cs es = Some (map2 (patchOne impl) cs es)"
proof (induction impl cs es rule: patchExpiry.induct)
  case (1 impl es)
  show ?case by simp
next
  case (2 impl c cs)
  then show ?case by simp
next
  case (3 impl c cs e es)
  then show ?case by (simp add: patchOne_def)
qed

lemma cookieMembers_Expiry: "Expiry (fst (cookieMembers kvs c ok)) = Expiry c"
  by (induction kvs c ok rule: cookieMembers.induct) (auto split: option.splits)

lemma decCookie_Expiry: "decCookie j = Some c \<Longrightarrow> Expiry c = 0"
proof (cases j)
  case (JObject kvs)
  assume "decCookie j = Some c"
  with JObject have "c = fst (cookieMembers kvs cookie0 True)"
    by (auto simp: decCookie_def split: prod.splits bool.splits)
  then show ?thesis by (simp add: cookieMembers_Expiry cookie0_def)
qed (auto simp: decCookie_def cookie0_def)

lemma decAll_all:
  "decAll f js = Some xs \<Longrightarrow> (\<And>j x. f j = Some x \<Longrightarrow> P x) \<Longrightarrow> list_all P xs"
  by (induction js arbitrary: xs) (auto split: option.splits)

lemma decCookies_Expiry: "decCookies raw = Some cs \<Longrightarrow> list_all (\<lambda>c. Expiry c = 0) cs"
proof (cases raw)
  case None
  assume "decCookies raw = Some cs"
  with None show ?thesis by (simp add: decCookies_def decSlice_def)
next
  case (Some j)
  assume d: "decCookies raw = Some cs"
  show ?thesis
  proof (cases j)
    case (JArray js)
    with d Some have "decAll decCookie js = Some cs"
      by (simp add: decCookies_def decSlice_def)
    then show ?thesis by (rule decAll_all) (rule decCookie_Expiry)
  qed (use d Some in \<open>auto simp: decCookies_def decSlice_def\<close>)
qed

lemma bitlen_bound: "n < 2 ^ k \<Longrightarrow> bitlen n \<le> k"
proof (induction k arbitrary: n)
  case 0
  then show ?case by (simp add: bitlen.simps)
next
  case (Suc k)
  show ?case
  proof (cases "n = 0")
    case True
    then show ?thesis by (simp add: bitlen.simps)
  next
    case False
    from Suc.prems have "n div 2 < 2 ^ k" by simp
    from Suc.IH [OF this] False show ?thesis by (simp add: bitlen.simps [of n])
  qed
qed

lemma truncFloat64_integer:
  assumes "0 < den" and "num mod den = 0" and "num div den < 2 ^ 53"
  shows "truncFloat64 num den = num div den"
proof -
  define N where "N = num div den"
  define b where "b = bitlen N"
  have b: "b \<le> 53" using assms(3) unfolding b_def N_def by (rule bitlen_bound)
  then have "1 \<le> 54 - b" by simp
  then have "(2::nat) ^ 1 \<le> 2 ^ (54 - b)" by (rule power_increasing) simp
  then have p: "den * 2 \<le> den * 2 ^ (54 - b)" by simp
  have q: "\<not> den * 2 ^ (54 - b) \<le> den"
    using p assms(1) by simp
  have n54: "\<not> 54 \<le> b" using b by simp
  have "truncFloat64 num den =
          (if b = 53 then N + (if den < 2 * 0 \<or> (2 * 0 = den \<and> odd N) then 1 else 0)
           else N + (if (den - 0) * 2 ^ (54 - b) \<le> den then 1 else 0))"
    unfolding truncFloat64_def Let_def N_def [symmetric] b_def [symmetric]
    using n54 assms(2) by simp
  also have "\<dots> = N" using q assms(1) by simp
  finally show ?thesis by (simp add: N_def)
qed

lemma float64_max_bound: "(2::nat) ^ 53 \<le> 2 ^ 1024 - 2 ^ 970"
  by simp

lemma litValue_den: "litValue lit = Some (neg, num, den) \<Longrightarrow> 0 < den"
  by (auto simp: litValue_def Let_def split: option.splits if_splits)

lemma Float64_uint_integer:
  assumes "litValue lit = Some (False, num, den)" and "num mod den = 0"
    and "num div den < 2 ^ 53"
  shows "Float64_uint impl lit = Some (num div den)"
proof -
  have den: "0 < den" using assms(1) by (rule litValue_den)
  have t: "truncFloat64 num den = num div den"
    using den assms(2,3) by (rule truncFloat64_integer)
  have "num = (num div den) * den" using assms(2) by auto
  also have "\<dots> < 2 ^ 53 * den" using assms(3) den by simp
  also have "\<dots> \<le> (2 ^ 1024 - 2 ^ 970) * den"
    using float64_max_bound by (rule mult_le_mono1)
  finally have r: "\<not> (2 ^ 1024 - 2 ^ 970) * den \<le> num" by simp
  have "num div den < 2 ^ 64"
    using assms(3) by (rule less_le_trans) simp
  then show ?thesis
    using assms(1) r t by (simp add: Float64_uint_def Let_def del: power_numeral)
qed

lemma lit1700: "litValue ''1700000000'' = Some (False, 1700000000, 1)"
  by (simp add: litValue_def numParts_def numExponent_def isDigit_def digitVal_def Let_def)

lemma lit2p53: "litValue ''9007199254740993'' = Some (False, 9007199254740993, 1)"
  by (simp add: litValue_def numParts_def numExponent_def isDigit_def digitVal_def Let_def)

lemma litNegHalf: "litValue ''-0.5'' = Some (True, 5, 10)"
  by (simp add: litValue_def numParts_def numExponent_def isDigit_def digitVal_def Let_def)

lemma Float64_uint_negHalf: "Float64_uint impl ''-0.5'' = Some 0"
  by (simp add: Float64_uint_def litNegHalf truncFloat64_def Let_def bitlen.simps)

lemma bitlen_2p53: "bitlen 9007199254740993 = 54"
  by (simp add: bitlen.simps)

lemma trunc_2p53: "truncFloat64 9007199254740993 1 = 9007199254740992"
  by (simp add: truncFloat64_def Let_def bitlen_2p53)

lemma Float64_uint_2p53: "Float64_uint impl ''9007199254740993'' = Some 9007199254740992"
proof -
  have t: "truncFloat64 9007199254740993 (Suc 0) = 9007199254740992"
    using trunc_2p53 by simp
  show ?thesis
    by (simp add: Float64_uint_def lit2p53 t)
qed

lemma truncFloat64_floor:
  assumes "0 < den" and "num div den < 2 ^ 52" and "4 * (num mod den) < 3 * den"
  shows "truncFloat64 num den = num div den"
proof -
  define N where "N = num div den"
  define f where "f = num mod den"
  define b where "b = bitlen N"
  have b: "b \<le> 52" using assms(2) unfolding b_def N_def by (rule bitlen_bound)
  then have "2 \<le> 54 - b" by simp
  then have "(2::nat) ^ 2 \<le> 2 ^ (54 - b)" by (rule power_increasing) simp
  then have four: "(4::nat) \<le> 2 ^ (54 - b)" by simp
  have m: "(den - f) * 4 \<le> (den - f) * 2 ^ (54 - b)"
    using four by (rule mult_le_mono2)
  have lt: "den < (den - f) * 4" using assms(3) unfolding f_def by simp
  have "den < (den - f) * 2 ^ (54 - b)" using lt m by (rule less_le_trans)
  then have q: "\<not> (den - f) * 2 ^ (54 - b) \<le> den" by simp
  have n54: "\<not> 54 \<le> b" and n53: "b \<noteq> 53" using b by simp_all
  have "truncFloat64 num den = N + (if (den - f) * 2 ^ (54 - b) \<le> den then 1 else 0)"
    unfolding truncFloat64_def Let_def N_def [symmetric] b_def [symmetric] f_def [symmetric]
    using n54 n53 by simp
  also have "\<dots> = N" using q by simp
  finally show ?thesis by (simp add: N_def)
qed

lemma Float64_uint_floor:
  assumes "litValue lit = Some (False, num, den)" and "num div den < 2 ^ 52"
    and "4 * (num mod den) < 3 * den"
  shows "Float64_uint impl lit = Some (num div den)"
proof -
  have den: "0 < den" using assms(1) by (rule litValue_den)
  have t: "truncFloat64 num den = num div den"
    using den assms(2,3) by (rule truncFloat64_floor)
  have "num < (num div den + 1) * den"
    using den by (metis Suc_eq_plus1 dividend_less_div_times mult.commute mult_Suc_right add.commute)
  also have "\<dots> \<le> 2 ^ 53 * den"
    using assms(2) by (intro mult_le_mono1) simp
  also have "\<dots> \<le> (2 ^ 1024 - 2 ^ 970) * den"
    using float64_max_bound by (rule mult_le_mono1)
  finally have r: "\<not> (2 ^ 1024 - 2 ^ 970) * den \<le> num" by simp
  have "num div den < 2 ^ 64"
    using assms(2) by (rule less_le_trans) simp
  then show ?thesis
    using assms(1) r t by (simp add: Float64_uint_def Let_def del: power_numeral)
qed

lemma parseCookieExpiry_fails:
  assumes "decCookies raw = Some cs" and "decExpiries raw = None"
  shows "parseCookieExpiry impl cs raw = Return cs \<and> list_all (\<lambda>c. Expiry c = 0) cs"
  using assms decCookies_Expiry [OF assms(1)] by (simp add: parseCookieExpiry_def)

lemma parseCookieExpiry_patches:
  assumes "decCookies raw = Some cs" and "decExpiries raw = Some es"
  shows "length es = length cs
     \<and> parseCookieExpiry impl cs raw = Return (map2 (patchOne impl) cs es)"
proof -
  have l: "length cs = length es"
    using assms unfolding decCookies_def decExpiries_def by (rule decSlice_same_length)
  then show ?thesis
    using assms(2) by (simp add: parseCookieExpiry_def patchExpiry_map2)
qed

lemma GetCookies_patch:
  assumes "send E w wd ''GET'' (url E wd ''/session/%s/cookie'' [id' wd]) None
           = (Return (Some r), wd', w')"
    and "decCookies (Value r) = Some cs"
  shows "GetCookies E w wd = (parseCookieExpiry (UintOf E) cs (Value r), wd', w')"
  using assms by (simp add: GetCookies_def)

lemma decExpiry_member:
  "decExpiry (JObject [(''name'', JString a), (''Expiry'', JNumber lit)]) = Some lit"
  by (simp add: decExpiry_def unmarshal_fieldStruct_def isField_def)

text \<open>
  C7, as the code has it. Once the primary decode of the cookies has succeeded,
  \<^verbatim>\<open>GetCookies\<close> hands them and the raw value to \<^verbatim>\<open>parseCookieExpiry\<close>, which
  decodes the raw value again as a sequence of objects with an \<open>Expiry\<close>. If this
  second decode fails, the cookies are returned as they are, each with the expiry 0,
  and the command succeeds. If it succeeds it yields as many literals as there are
  cookies, and cookie \<open>i\<close> gets the expiry that literal \<open>i\<close> converts to, or stays as
  it is when the conversion fails. The conversion goes through \<^verbatim>\<open>float64\<close> to
  \<^verbatim>\<open>uint\<close>: it gives the integer part of the number when the number is a non-negative
  integer below \<open>2 ^ 53\<close> (so \<open>1700000000\<close> gives \<open>1700000000\<close>), or a non-negative
  number below \<open>2 ^ 52\<close> whose fraction is below three quarters.
\<close>

theorem cookie_expiry_patch:
  "(send E w wd ''GET'' (url E wd ''/session/%s/cookie'' [id' wd]) None
      = (Return (Some r), wd', w')
    \<and> decCookies (Value r) = Some cs
    \<longrightarrow> GetCookies E w wd = (parseCookieExpiry (UintOf E) cs (Value r), wd', w'))
   \<and> (decCookies raw = Some cs \<and> decExpiries raw = None
    \<longrightarrow> parseCookieExpiry impl cs raw = Return cs \<and> list_all (\<lambda>c. Expiry c = 0) cs)
   \<and> (decCookies raw = Some cs \<and> decExpiries raw = Some es
    \<longrightarrow> length es = length cs
        \<and> parseCookieExpiry impl cs raw = Return (map2 (patchOne impl) cs es))
   \<and> decExpiry (JObject [(''name'', JString a), (''Expiry'', JNumber lit0)]) = Some lit0
   \<and> (Float64_uint impl e = None \<longrightarrow> patchOne impl c e = c)
   \<and> (\<forall>n. Float64_uint impl e = Some n \<longrightarrow> patchOne impl c e = c\<lparr>Expiry := n\<rparr>)
   \<and> (litValue lit = Some (False, num, den) \<and> num mod den = 0 \<and> num div den < 2 ^ 53
    \<longrightarrow> Float64_uint impl lit = Some (num div den))
   \<and> (litValue lit = Some (False, num, den) \<and> num div den < 2 ^ 52
      \<and> 4 * (num mod den) < 3 * den
    \<longrightarrow> Float64_uint impl lit = Some (num div den))
   \<and> int (num div den) = spec_floor False num den"
proof -
  have c1: "send E w wd ''GET'' (url E wd ''/session/%s/cookie'' [id' wd]) None
      = (Return (Some r), wd', w')
    \<and> decCookies (Value r) = Some cs
    \<longrightarrow> GetCookies E w wd = (parseCookieExpiry (UintOf E) cs (Value r), wd', w')"
    using GetCookies_patch [of E w wd r wd' w' cs] by simp
  have c2: "decCookies raw = Some cs \<and> decExpiries raw = None
    \<longrightarrow> parseCookieExpiry impl cs raw = Return cs \<and> list_all (\<lambda>c. Expiry c = 0) cs"
    using parseCookieExpiry_fails [of raw cs impl] by simp
  have c3: "decCookies raw = Some cs \<and> decExpiries raw = Some es
    \<longrightarrow> length es = length cs
        \<and> parseCookieExpiry impl cs raw = Return (map2 (patchOne impl) cs es)"
    using parseCookieExpiry_patches [of raw cs es impl] by simp
  have c4: "decExpiry (JObject [(''name'', JString a), (''Expiry'', JNumber lit0)]) = Some lit0"
    by (rule decExpiry_member)
  have c5: "Float64_uint impl e = None \<longrightarrow> patchOne impl c e = c"
    by (simp add: patchOne_def)
  have c6: "\<forall>n. Float64_uint impl e = Some n \<longrightarrow> patchOne impl c e = c\<lparr>Expiry := n\<rparr>"
    by (simp add: patchOne_def)
  have c7: "litValue lit = Some (False, num, den) \<and> num mod den = 0 \<and> num div den < 2 ^ 53
    \<longrightarrow> Float64_uint impl lit = Some (num div den)"
    using Float64_uint_integer [of lit num den impl] by (simp del: power_numeral)
  have c8: "litValue lit = Some (False, num, den) \<and> num div den < 2 ^ 52
      \<and> 4 * (num mod den) < 3 * den
    \<longrightarrow> Float64_uint impl lit = Some (num div den)"
    using Float64_uint_floor [of lit num den impl] by (simp del: power_numeral)
  have c9: "int (num div den) = spec_floor False num den"
    by (simp add: spec_floor_def zdiv_int)
  from c1 c2 c3 c4 c5 c6 c7 c8 c9 show ?thesis by (intro conjI)
qed

lemma cookieBody_doc:
  "bodyParser (cookieBody ''1700000000'') = Some (cookieDoc (JNumber ''1700000000''))"
  "bodyParser (cookieBody ''9007199254740993'')
     = Some (cookieDoc (JNumber ''9007199254740993''))"
  "bodyParser (cookieBody ''true'') = Some (cookieDoc (JBool True))"
  "bodyParser (cookieBody ''-0.5'') = Some (cookieDoc (JNumber ''-0.5''))"
  by (simp_all add: bodyParser_def cookieBody_def bodySession_def bodyValue5_def
        bodyElem_def dq_def)

lemma cookieDoc_reply:
  "unmarshal_reply (cookieDoc e) reply0
   = (\<lparr>SessionId = [], Status = 0,
       Value = Some (JArray [JObject [(''name'', JString ''a''), (''Expiry'', e)]])\<rparr>, True)"
  by (simp add: cookieDoc_def unmarshal_reply_def isField_def reply0_def ParseInt_def
        isDigit_def digitVal_def)

lemma cookie_send:
  assumes "bodyParser (cookieBody lit) = Some (cookieDoc e)"
  shows "send (jsonEnv (cookieBody lit)) world0 (driverS1 Background) ''GET''
           (url (jsonEnv (cookieBody lit)) (driverS1 Background) ''/session/%s/cookie'' [id' (driverS1 Background)]) None
         = (Return (Some \<lparr>SessionId = [], Status = 0,
              Value = Some (JArray [JObject [(''name'', JString ''a''), (''Expiry'', e)]])\<rparr>),
            driverS1 Background,
            roundTrip world0 (newRequest ''GET'' ''http://h/session/s1/cookie'' None))"
proof -
  have ne: "cookieBody lit \<noteq> []" by (simp add: cookieBody_def)
  have bg: "ctx (driverS1 Background) = Background" by (simp add: driverS1_def)
  have j: "cookieDoc e \<noteq> JNull" by (simp add: cookieDoc_def)
  have u: "url (jsonEnv (cookieBody lit)) (driverS1 Background) ''/session/%s/cookie'' [id' (driverS1 Background)]
           = ''http://h/session/s1/cookie''"
    by (simp add: url_def Sprintf_def driverS1_def)
  show ?thesis
    unfolding u using jsonEnv_send [OF assms ne cookieDoc_reply _ bg j] by simp
qed

lemma decCookies_sample:
  "decCookies (Some (JArray [JObject [(''name'', JString ''a''), (''Expiry'', e)]]))
   = Some [cookie0\<lparr>Name := ''a''\<rparr>]"
  by (simp add: decCookies_def decSlice_def decCookie_def isField_def)

lemma decExpiries_sample:
  "decExpiries (Some (JArray [JObject [(''name'', JString ''a''), (''Expiry'', JNumber lit)]]))
   = Some [lit]"
  "decExpiries (Some (JArray [JObject [(''name'', JString ''a''), (''Expiry'', JBool b)]]))
   = None"
  by (simp_all add: decExpiries_def decSlice_def decExpiry_def unmarshal_fieldStruct_def
        isField_def)

theorem cookie_expiry_patch_witness:
  "GetCookies (jsonEnv (cookieBody ''1700000000'')) world0 (driverS1 Background)
     = (Return [cookie0\<lparr>Name := ''a'', Expiry := 1700000000\<rparr>], driverS1 Background,
        roundTrip world0 (newRequest ''GET'' ''http://h/session/s1/cookie'' None))
   \<and> litValue ''1700000000'' = Some (False, 1700000000, 1)
   \<and> GetCookies (jsonEnv (cookieBody ''true'')) world0 (driverS1 Background)
     = (Return [cookie0\<lparr>Name := ''a''\<rparr>], driverS1 Background,
        roundTrip world0 (newRequest ''GET'' ''http://h/session/s1/cookie'' None))
   \<and> Expiry (cookie0\<lparr>Name := ''a''\<rparr>) = 0"
proof -
  let ?wd = "driverS1 Background"
  let ?w1 = "roundTrip world0 (newRequest ''GET'' ''http://h/session/s1/cookie'' None)"
  let ?c = "cookie0\<lparr>Name := ''a''\<rparr>"
  let ?raw = "\<lambda>e. Some (JArray [JObject [(''name'', JString ''a''), (''Expiry'', e)]])"
  let ?r = "\<lambda>e. \<lparr>SessionId = [], Status = 0, Value = ?raw e\<rparr>"
  note T = cookie_expiry_patch
  have f: "Float64_uint (UintOf (jsonEnv (cookieBody ''1700000000''))) ''1700000000''
           = Some 1700000000"
    using T [of _ _ _ _ _ _ _ _ _ _ _ _ _ _ "''1700000000''" 1700000000 1] lit1700 by simp
  have g1: "GetCookies (jsonEnv (cookieBody ''1700000000'')) world0 ?wd
        = (parseCookieExpiry (UintOf (jsonEnv (cookieBody ''1700000000''))) [?c]
             (?raw (JNumber ''1700000000'')), ?wd, ?w1)"
    using T [of "jsonEnv (cookieBody ''1700000000'')" world0 ?wd "?r (JNumber ''1700000000'')"
               ?wd ?w1 "[?c]"]
      cookie_send [OF cookieBody_doc(1)] decCookies_sample
    by simp
  have p1: "parseCookieExpiry (UintOf (jsonEnv (cookieBody ''1700000000''))) [?c]
             (?raw (JNumber ''1700000000''))
            = Return (map2 (patchOne (UintOf (jsonEnv (cookieBody ''1700000000''))))
                        [?c] [''1700000000''])"
    using T [of _ _ _ _ _ _ "[?c]" "?raw (JNumber ''1700000000'')"
               "UintOf (jsonEnv (cookieBody ''1700000000''))" "[''1700000000'']"]
      decCookies_sample decExpiries_sample(1)
    by blast
  have a: "GetCookies (jsonEnv (cookieBody ''1700000000'')) world0 ?wd
     = (Return [?c\<lparr>Expiry := 1700000000\<rparr>], ?wd, ?w1)"
    by (simp add: g1 p1 patchOne_def f)
  have g2: "GetCookies (jsonEnv (cookieBody ''true'')) world0 ?wd
        = (parseCookieExpiry (UintOf (jsonEnv (cookieBody ''true''))) [?c]
             (?raw (JBool True)), ?wd, ?w1)"
    using T [of "jsonEnv (cookieBody ''true'')" world0 ?wd "?r (JBool True)" ?wd ?w1 "[?c]"]
      cookie_send [OF cookieBody_doc(3)] decCookies_sample
    by simp
  have p2: "parseCookieExpiry (UintOf (jsonEnv (cookieBody ''true''))) [?c] (?raw (JBool True))
            = Return [?c]"
    using T [of _ _ _ _ _ _ "[?c]" "?raw (JBool True)" "UintOf (jsonEnv (cookieBody ''true''))"]
      decCookies_sample decExpiries_sample(2)
    by blast
  have b: "GetCookies (jsonEnv (cookieBody ''true'')) world0 ?wd = (Return [?c], ?wd, ?w1)"
    by (simp add: g2 p2)
  have z: "Expiry ?c = 0" by (simp add: cookie0_def)
  from a lit1700 b z show ?thesis by simp
qed

text \<open>
  The claim as worded has the floor of every numeric written. The expiry \<open>-0.5\<close> is
  written as \<open>0\<close>, and its floor is \<open>-1\<close>: the conversion cuts the fraction off
  towards zero, and no \<^verbatim>\<open>uint\<close> is negative. The expiry \<open>9007199254740993\<close>, an
  integer, is written as \<open>9007199254740992\<close>, the nearest \<^verbatim>\<open>float64\<close>.
\<close>

theorem expiry_is_not_the_floor:
  "GetCookies (jsonEnv (cookieBody ''-0.5'')) world0 (driverS1 Background)
     = (Return [cookie0\<lparr>Name := ''a'', Expiry := 0\<rparr>], driverS1 Background,
        roundTrip world0 (newRequest ''GET'' ''http://h/session/s1/cookie'' None))
   \<and> litValue ''-0.5'' = Some (True, 5, 10)
   \<and> spec_floor True 5 10 = - 1
   \<and> GetCookies (jsonEnv (cookieBody ''9007199254740993'')) world0 (driverS1 Background)
     = (Return [cookie0\<lparr>Name := ''a'', Expiry := 9007199254740992\<rparr>], driverS1 Background,
        roundTrip world0 (newRequest ''GET'' ''http://h/session/s1/cookie'' None))
   \<and> litValue ''9007199254740993'' = Some (False, 9007199254740993, 1)
   \<and> spec_floor False 9007199254740993 1 = 9007199254740993"
proof -
  let ?wd = "driverS1 Background"
  let ?c = "cookie0\<lparr>Name := ''a''\<rparr>"
  have p: "parseCookieExpiry impl [?c]
             (Some (JArray [JObject [(''name'', JString ''a''),
                                     (''Expiry'', JNumber ''9007199254740993'')]]))
           = Return [?c\<lparr>Expiry := 9007199254740992\<rparr>]" for impl
    by (simp add: parseCookieExpiry_def decExpiries_sample(1) Float64_uint_2p53)
  have a: "GetCookies (jsonEnv (cookieBody ''9007199254740993'')) world0 ?wd
     = (Return [?c\<lparr>Expiry := 9007199254740992\<rparr>], ?wd,
        roundTrip world0 (newRequest ''GET'' ''http://h/session/s1/cookie'' None))"
    by (simp add: GetCookies_def cookie_send [OF cookieBody_doc(2)] decCookies_sample p)
  have q: "parseCookieExpiry impl [?c]
             (Some (JArray [JObject [(''name'', JString ''a''),
                                     (''Expiry'', JNumber ''-0.5'')]]))
           = Return [?c\<lparr>Expiry := 0\<rparr>]" for impl
    by (simp add: parseCookieExpiry_def decExpiries_sample(1) Float64_uint_negHalf)
  have b: "GetCookies (jsonEnv (cookieBody ''-0.5'')) world0 ?wd
     = (Return [?c\<lparr>Expiry := 0\<rparr>], ?wd,
        roundTrip world0 (newRequest ''GET'' ''http://h/session/s1/cookie'' None))"
    by (simp add: GetCookies_def cookie_send [OF cookieBody_doc(4)] decCookies_sample q)
  have f1: "spec_floor True 5 10 = - 1" by (simp add: spec_floor_def)
  have f2: "spec_floor False 9007199254740993 1 = 9007199254740993"
    by (simp add: spec_floor_def)
  from a b litNegHalf lit2p53 f1 f2 show ?thesis by simp
qed

end
